theory Spec2Isabelle
  imports Complex_Main "HOL-Library.Sublist"
begin

section \<open>Python values\<close>

text \<open>
  The wire payloads of agent_link are the values Python's json module produces: None,
  booleans, integers, floats, strings, lists and dictionaries with string keys. A
  dictionary is an association list in insertion order; a well-formed one has distinct
  keys. A string is the list of its code points (those below 256). Floats are carried
  around and tested for zero, never computed with.
\<close>

datatype json =
    JNull
  | JBool bool
  | JInt int
  | JFloat real
  | JStr string
  | JList "json list"
  | JDict "(string \<times> json) list"

type_synonym pydict = "(string \<times> json) list"

text \<open>The exceptions the code raises or catches; all are subclasses of Exception.
  \<open>OtherError\<close> stands for any other Exception subclass a handler or the transport raises.
  Messages are written without the apostrophes the source puts around field names.\<close>

datatype exc =
    ValueError string
  | KeyError string
  | ConnectionError string
  | OtherError string

text \<open>\<open>str(exc)\<close>: a KeyError prints the repr of its key.\<close>

fun exc_str :: "exc \<Rightarrow> string" where
  "exc_str (ValueError m) = m"
| "exc_str (KeyError k) = [CHR 0x27] @ k @ [CHR 0x27]"
| "exc_str (ConnectionError m) = m"
| "exc_str (OtherError m) = m"

text \<open>\<open>bool(v)\<close>: Python's truth value, used by \<open>if v:\<close>, \<open>not v\<close> and \<open>a or b\<close>.\<close>

fun truthy :: "json \<Rightarrow> bool" where
  "truthy JNull = False"
| "truthy (JBool b) = b"
| "truthy (JInt i) = (i \<noteq> 0)"
| "truthy (JFloat x) = (x \<noteq> 0)"
| "truthy (JStr s) = (s \<noteq> [])"
| "truthy (JList xs) = (xs \<noteq> [])"
| "truthy (JDict d) = (d \<noteq> [])"

definition py_or :: "json \<Rightarrow> json \<Rightarrow> json" where
  "py_or a b = (if truthy a then a else b)"

text \<open>Truth value of an optional field holding a string, a list or a dictionary.\<close>

fun truthy_opt :: "'a list option \<Rightarrow> bool" where
  "truthy_opt None = False"
| "truthy_opt (Some xs) = (xs \<noteq> [])"

fun is_str :: "json \<Rightarrow> bool" where
  "is_str (JStr s) = True"
| "is_str v = False"

fun is_dict :: "json \<Rightarrow> bool" where
  "is_dict (JDict d) = True"
| "is_dict v = False"

fun is_list :: "json \<Rightarrow> bool" where
  "is_list (JList xs) = True"
| "is_list v = False"

text \<open>\<open>isinstance(v, int)\<close> holds for booleans too: bool is a subclass of int.\<close>

fun is_int :: "json \<Rightarrow> bool" where
  "is_int (JInt i) = True"
| "is_int (JBool b) = True"
| "is_int v = False"

fun is_bool :: "json \<Rightarrow> bool" where
  "is_bool (JBool b) = True"
| "is_bool v = False"

text \<open>\<open>d.get(k)\<close>, \<open>d.get(k, default)\<close> and \<open>d[k]\<close>.\<close>

definition py_get :: "pydict \<Rightarrow> string \<Rightarrow> json" where
  "py_get d k = (case map_of d k of None \<Rightarrow> JNull | Some v \<Rightarrow> v)"

definition py_get_default :: "pydict \<Rightarrow> string \<Rightarrow> json \<Rightarrow> json" where
  "py_get_default d k dflt = (case map_of d k of None \<Rightarrow> dflt | Some v \<Rightarrow> v)"

definition py_item :: "pydict \<Rightarrow> string \<Rightarrow> exc + json" where
  "py_item d k = (case map_of d k of None \<Rightarrow> Inl (KeyError k) | Some v \<Rightarrow> Inr v)"

text \<open>\<open>d[k] = v\<close>: an existing key keeps its position, a new key is appended.\<close>

definition dict_set :: "pydict \<Rightarrow> string \<Rightarrow> json \<Rightarrow> pydict" where
  "dict_set d k v =
     (case map_of d k of
        None \<Rightarrow> d @ [(k, v)]
      | Some old \<Rightarrow> map (\<lambda>(k', v'). if k' = k then (k', v) else (k', v')) d)"

text \<open>\<open>{**d, **e}\<close>.\<close>

definition dict_merge :: "pydict \<Rightarrow> pydict \<Rightarrow> pydict" where
  "dict_merge d e = foldl (\<lambda>acc (k, v). dict_set acc k v) d e"

text \<open>\<open>isinstance(v, dict)\<close> / \<open>isinstance(v, list)\<close> selections of the form
  \<open>v if isinstance(v, dict) else None\<close>.\<close>

fun dict_or_none :: "json \<Rightarrow> pydict option" where
  "dict_or_none (JDict d) = Some d"
| "dict_or_none v = None"

fun list_or_none :: "json \<Rightarrow> json list option" where
  "list_or_none (JList xs) = Some xs"
| "list_or_none v = None"

fun str_or_none :: "json \<Rightarrow> string option" where
  "str_or_none (JStr s) = Some s"
| "str_or_none v = None"

text \<open>\<open>s.strip()\<close>: the characters below 256 for which \<open>str.isspace\<close> holds.\<close>

definition py_isspace :: "char \<Rightarrow> bool" where
  "py_isspace c = (of_char c \<in> {9, 10, 11, 12, 13, 28, 29, 30, 31, 32, 133, 160 :: nat})"

definition py_strip :: "string \<Rightarrow> string" where
  "py_strip s = rev (dropWhile py_isspace (rev (dropWhile py_isspace s)))"


section \<open>a2a.py: the envelope model\<close>

definition JSONRPC_VERSION :: string where
  "JSONRPC_VERSION = ''2.0''"

subsection \<open>A2APart\<close>

record A2APart =
  part_kind :: string
  part_data :: pydict
  part_metadata :: "pydict option"

definition A2APart_to_dict :: "A2APart \<Rightarrow> pydict" where
  "A2APart_to_dict p =
     (let part = dict_merge [(''kind'', JStr (part_kind p))] (part_data p)
      in if truthy_opt (part_metadata p)
         then dict_set part ''metadata'' (JDict (the (part_metadata p)))
         else part)"

definition A2APart_from_dict :: "json \<Rightarrow> exc + A2APart" where
  "A2APart_from_dict v =
     (case v of
        JDict d \<Rightarrow>
          (case py_get d ''kind'' of
             JStr k \<Rightarrow>
               Inr \<lparr> part_kind = k,
                     part_data = filter (\<lambda>(key, x). key \<notin> {''kind'', ''metadata''}) d,
                     part_metadata = dict_or_none (py_get d ''metadata'') \<rparr>
           | _ \<Rightarrow> Inl (ValueError ''A2A part requires a string kind field''))
      | _ \<Rightarrow> Inl (ValueError ''A2A part must be a dictionary''))"

text \<open>The \<open>text\<close> property.\<close>

definition A2APart_text :: "A2APart \<Rightarrow> string option" where
  "A2APart_text p = str_or_none (py_get (part_data p) ''text'')"

definition create_text_part :: "string \<Rightarrow> pydict option \<Rightarrow> A2APart" where
  "create_text_part t md =
     \<lparr> part_kind = ''text'', part_data = [(''text'', JStr t)], part_metadata = md \<rparr>"

subsection \<open>A2AMessage\<close>

text \<open>\<open>role\<close> is declared as the literal type "user" | "agent"; the constructor does not
  check it, so the field is a string. \<open>kind\<close>, \<open>extensions\<close> and \<open>reference_task_ids\<close>
  hold whatever \<open>from_dict\<close> read, which it does not check to be strings.\<close>

record A2AMessage =
  msg_role :: string
  msg_parts :: "A2APart list"
  msg_message_id :: string
  msg_kind :: json
  msg_metadata :: "pydict option"
  msg_extensions :: "json list option"
  msg_reference_task_ids :: "json list option"
  msg_task_id :: "string option"
  msg_context_id :: "string option"

definition A2AMessage_to_dict :: "A2AMessage \<Rightarrow> pydict" where
  "A2AMessage_to_dict m =
     (let payload = [(''role'', JStr (msg_role m)),
                     (''parts'', JList (map (\<lambda>p. JDict (A2APart_to_dict p)) (msg_parts m))),
                     (''messageId'', JStr (msg_message_id m)),
                     (''kind'', msg_kind m)];
          payload = (if truthy_opt (msg_metadata m)
                     then dict_set payload ''metadata'' (JDict (the (msg_metadata m)))
                     else payload);
          payload = (if truthy_opt (msg_extensions m)
                     then dict_set payload ''extensions'' (JList (the (msg_extensions m)))
                     else payload);
          payload = (if truthy_opt (msg_reference_task_ids m)
                     then dict_set payload ''referenceTaskIds''
                            (JList (the (msg_reference_task_ids m)))
                     else payload);
          payload = (if truthy_opt (msg_task_id m)
                     then dict_set payload ''taskId'' (JStr (the (msg_task_id m)))
                     else payload);
          payload = (if truthy_opt (msg_context_id m)
                     then dict_set payload ''contextId'' (JStr (the (msg_context_id m)))
                     else payload)
      in payload)"

text \<open>The list comprehension \<open>[A2APart.from_dict(part) for part in parts_value]\<close>: the first
  part that fails raises.\<close>

fun parts_from_list :: "json list \<Rightarrow> exc + A2APart list" where
  "parts_from_list [] = Inr []"
| "parts_from_list (v # vs) =
     (case A2APart_from_dict v of
        Inl e \<Rightarrow> Inl e
      | Inr p \<Rightarrow> (case parts_from_list vs of Inl e \<Rightarrow> Inl e | Inr ps \<Rightarrow> Inr (p # ps)))"

text \<open>\<open>list(xs) if xs else None\<close> for an optional list.\<close>

definition nonempty_or_none :: "'a list option \<Rightarrow> 'a list option" where
  "nonempty_or_none xs = (if truthy_opt xs then xs else None)"

definition A2AMessage_from_dict :: "json \<Rightarrow> exc + A2AMessage" where
  "A2AMessage_from_dict v =
     (case v of
        JDict d \<Rightarrow>
          (let role = py_get d ''role'' in
           if role \<noteq> JStr ''user'' \<and> role \<noteq> JStr ''agent''
           then Inl (ValueError ''A2A message role must be user or agent'')
           else
             (case py_get d ''parts'' of
                JList (pv # pvs) \<Rightarrow>
                  (case parts_from_list (pv # pvs) of
                     Inl e \<Rightarrow> Inl e
                   | Inr ps \<Rightarrow>
                       (case py_or (py_get d ''messageId'') (py_get d ''message_id'') of
                          JStr mid \<Rightarrow>
                            Inr \<lparr> msg_role = (case role of JStr r \<Rightarrow> r | _ \<Rightarrow> []),
                                  msg_parts = ps,
                                  msg_message_id = mid,
                                  msg_kind = py_get_default d ''kind'' (JStr ''message''),
                                  msg_metadata = dict_or_none (py_get d ''metadata''),
                                  msg_extensions =
                                    nonempty_or_none (list_or_none (py_get d ''extensions'')),
                                  msg_reference_task_ids =
                                    nonempty_or_none (list_or_none (py_get d ''referenceTaskIds'')),
                                  msg_task_id =
                                    str_or_none (py_or (py_get d ''taskId'') (py_get d ''task_id'')),
                                  msg_context_id =
                                    str_or_none
                                      (py_or (py_get d ''contextId'') (py_get d ''context_id'')) \<rparr>
                        | _ \<Rightarrow> Inl (ValueError ''A2A message requires a string messageId''))
                   )
              | _ \<Rightarrow> Inl (ValueError ''A2A message requires a non-empty parts list'')))
      | _ \<Rightarrow> Inl (ValueError ''A2A message must be a dictionary''))"

text \<open>The \<open>primary_text\<close> property: the loop over the parts.\<close>

fun primary_text_of :: "A2APart list \<Rightarrow> string option" where
  "primary_text_of [] = None"
| "primary_text_of (p # ps) =
     (case A2APart_text p of Some t \<Rightarrow> Some t | None \<Rightarrow> primary_text_of ps)"

definition primary_text :: "A2AMessage \<Rightarrow> string option" where
  "primary_text m = primary_text_of (msg_parts m)"

subsection \<open>derive_sender_id_from_message\<close>

definition sender_keys :: "string list" where
  "sender_keys = [''sender_id'', ''senderId'', ''agent_id'', ''agentId'', ''authorId'', ''author_id'']"

text \<open>The loop over the keys: the first value that is a string with \<open>value.strip()\<close>
  non-empty is returned.\<close>

fun scan_sender_keys :: "pydict \<Rightarrow> string list \<Rightarrow> string option" where
  "scan_sender_keys md [] = None"
| "scan_sender_keys md (k # ks) =
     (case py_get md k of
        JStr s \<Rightarrow> if py_strip s \<noteq> [] then Some s else scan_sender_keys md ks
      | _ \<Rightarrow> scan_sender_keys md ks)"

definition derive_sender_id_from_message :: "A2AMessage \<Rightarrow> string" where
  "derive_sender_id_from_message m =
     (let md = (if truthy_opt (msg_metadata m) then the (msg_metadata m) else [])
      in case scan_sender_keys md sender_keys of
           Some s \<Rightarrow> s
         | None \<Rightarrow>
             if truthy_opt (msg_context_id m) then the (msg_context_id m)
             else if truthy_opt (msg_task_id m) then the (msg_task_id m)
             else ''a2a:'' @ msg_role m)"


subsection \<open>MessageSendConfiguration, MessageSendParams, SendMessageRequest\<close>

text \<open>\<open>history_length\<close> and \<open>blocking\<close> hold None (\<open>JNull\<close>) or the value given.\<close>

record MessageSendConfiguration =
  cfg_accepted_output_modes :: "json list option"
  cfg_history_length :: json
  cfg_push_notification_config :: "pydict option"
  cfg_blocking :: json

definition MessageSendConfiguration_to_dict :: "MessageSendConfiguration \<Rightarrow> pydict" where
  "MessageSendConfiguration_to_dict c =
     (let payload = [];
          payload = (if truthy_opt (cfg_accepted_output_modes c)
                     then dict_set payload ''acceptedOutputModes''
                            (JList (the (cfg_accepted_output_modes c)))
                     else payload);
          payload = (if cfg_history_length c \<noteq> JNull
                     then dict_set payload ''historyLength'' (cfg_history_length c)
                     else payload);
          payload = (if truthy_opt (cfg_push_notification_config c)
                     then dict_set payload ''pushNotificationConfig''
                            (JDict (the (cfg_push_notification_config c)))
                     else payload);
          payload = (if cfg_blocking c \<noteq> JNull
                     then dict_set payload ''blocking'' (cfg_blocking c)
                     else payload)
      in payload)"

definition MessageSendConfiguration_from_dict :: "json \<Rightarrow> exc + MessageSendConfiguration" where
  "MessageSendConfiguration_from_dict v =
     (case v of
        JDict d \<Rightarrow>
          (let history_length = py_get d ''historyLength'';
               blocking = py_get d ''blocking''
           in if history_length \<noteq> JNull \<and> \<not> is_int history_length
              then Inl (ValueError ''historyLength must be an integer if provided'')
              else if blocking \<noteq> JNull \<and> \<not> is_bool blocking
              then Inl (ValueError ''blocking must be a boolean if provided'')
              else Inr \<lparr> cfg_accepted_output_modes = list_or_none (py_get d ''acceptedOutputModes''),
                         cfg_history_length = history_length,
                         cfg_push_notification_config =
                           dict_or_none (py_get d ''pushNotificationConfig''),
                         cfg_blocking = blocking \<rparr>)
      | _ \<Rightarrow> Inl (ValueError ''Configuration must be a dictionary''))"

record MessageSendParams =
  prm_message :: A2AMessage
  prm_configuration :: "MessageSendConfiguration option"
  prm_metadata :: "pydict option"

text \<open>\<open>if self.configuration:\<close> holds for every configuration object: a dataclass instance
  without \<open>__bool__\<close> or \<open>__len__\<close> is true.\<close>

definition MessageSendParams_to_dict :: "MessageSendParams \<Rightarrow> pydict" where
  "MessageSendParams_to_dict p =
     (let payload = [(''message'', JDict (A2AMessage_to_dict (prm_message p)))];
          payload = (case prm_configuration p of
                       Some c \<Rightarrow> dict_set payload ''configuration''
                                   (JDict (MessageSendConfiguration_to_dict c))
                     | None \<Rightarrow> payload);
          payload = (if truthy_opt (prm_metadata p)
                     then dict_set payload ''metadata'' (JDict (the (prm_metadata p)))
                     else payload)
      in payload)"

definition MessageSendParams_from_dict :: "json \<Rightarrow> exc + MessageSendParams" where
  "MessageSendParams_from_dict v =
     (case v of
        JDict d \<Rightarrow>
          (case py_get d ''message'' of
             JDict md \<Rightarrow>
               (case A2AMessage_from_dict (JDict md) of
                  Inl e \<Rightarrow> Inl e
                | Inr m \<Rightarrow>
                    (case py_get d ''configuration'' of
                       JDict cd \<Rightarrow>
                         (case MessageSendConfiguration_from_dict (JDict cd) of
                            Inl e \<Rightarrow> Inl e
                          | Inr c \<Rightarrow>
                              Inr \<lparr> prm_message = m, prm_configuration = Some c,
                                    prm_metadata = dict_or_none (py_get d ''metadata'') \<rparr>)
                     | _ \<Rightarrow>
                         Inr \<lparr> prm_message = m, prm_configuration = None,
                               prm_metadata = dict_or_none (py_get d ''metadata'') \<rparr>))
           | _ \<Rightarrow> Inl (ValueError ''Parameters must include a message dictionary''))
      | _ \<Rightarrow> Inl (ValueError ''Parameters must be a dictionary''))"

record SendMessageRequest =
  req_id :: json
  req_params :: MessageSendParams
  req_method :: string
  req_jsonrpc :: string

definition SendMessageRequest_to_dict :: "SendMessageRequest \<Rightarrow> pydict" where
  "SendMessageRequest_to_dict r =
     [(''jsonrpc'', JStr (req_jsonrpc r)),
      (''id'', req_id r),
      (''method'', JStr (req_method r)),
      (''params'', JDict (MessageSendParams_to_dict (req_params r)))]"

subsection \<open>A2AEnvelope\<close>

text \<open>\<open>id\<close>, \<open>method\<close> and \<open>result\<close> hold what \<open>value.get\<close> returned, None when the key is
  missing.\<close>

record A2AEnvelope =
  env_jsonrpc :: string
  env_id :: json
  env_method :: json
  env_params :: "MessageSendParams option"
  env_result :: json
  env_error :: "pydict option"
  env_raw :: pydict

definition is_request :: "A2AEnvelope \<Rightarrow> bool" where
  "is_request e = (env_method e \<noteq> JNull)"

text \<open>The \<open>message\<close> property. \<open>A2AMessage.from_dict\<close> raises nothing but ValueError, which
  the property catches.\<close>

definition A2AEnvelope_message :: "A2AEnvelope \<Rightarrow> A2AMessage option" where
  "A2AEnvelope_message e =
     (case env_params e of
        Some p \<Rightarrow> Some (prm_message p)
      | None \<Rightarrow>
          (case env_result e of
             JDict d \<Rightarrow>
               (case A2AMessage_from_dict (JDict d) of
                  Inr m \<Rightarrow> Some m
                | Inl err \<Rightarrow> None)
           | _ \<Rightarrow> None))"

definition A2AEnvelope_to_dict :: "A2AEnvelope \<Rightarrow> pydict" where
  "A2AEnvelope_to_dict e =
     (let payload = [(''jsonrpc'', JStr (env_jsonrpc e))];
          payload = (if env_id e \<noteq> JNull then dict_set payload ''id'' (env_id e) else payload);
          payload = (if truthy (env_method e)
                     then dict_set payload ''method'' (env_method e) else payload);
          payload = (case env_params e of
                       Some p \<Rightarrow> dict_set payload ''params'' (JDict (MessageSendParams_to_dict p))
                     | None \<Rightarrow> payload);
          payload = (if env_result e \<noteq> JNull
                     then dict_set payload ''result'' (env_result e) else payload);
          payload = (case env_error e of
                       Some err \<Rightarrow> dict_set payload ''error'' (JDict err)
                     | None \<Rightarrow> payload)
      in payload)"

text \<open>A \<open>params\<close> value that does not parse (ValueError) leaves \<open>params\<close> None.\<close>

definition A2AEnvelope_from_dict :: "json \<Rightarrow> exc + A2AEnvelope" where
  "A2AEnvelope_from_dict v =
     (case v of
        JDict d \<Rightarrow>
          if py_get d ''jsonrpc'' \<noteq> JStr JSONRPC_VERSION
          then Inl (ValueError ''Unsupported or missing JSON-RPC version'')
          else
            Inr \<lparr> env_jsonrpc = JSONRPC_VERSION,
                  env_id = py_get d ''id'',
                  env_method = py_get d ''method'',
                  env_params =
                    (case py_get d ''params'' of
                       JDict pd \<Rightarrow>
                         (case MessageSendParams_from_dict (JDict pd) of
                            Inr p \<Rightarrow> Some p
                          | Inl e \<Rightarrow> None)
                     | _ \<Rightarrow> None),
                  env_result = py_get d ''result'',
                  env_error = dict_or_none (py_get d ''error''),
                  env_raw = d \<rparr>
      | _ \<Rightarrow> Inl (ValueError ''Envelope must be a dictionary''))"

definition is_a2a_envelope :: "json \<Rightarrow> bool" where
  "is_a2a_envelope payload =
     (case payload of JDict d \<Rightarrow> py_get d ''jsonrpc'' = JStr JSONRPC_VERSION | _ \<Rightarrow> False)"

definition parse_a2a_envelope :: "json \<Rightarrow> A2AEnvelope option" where
  "parse_a2a_envelope payload =
     (if \<not> is_a2a_envelope payload then None
      else (case A2AEnvelope_from_dict payload of Inr e \<Rightarrow> Some e | Inl err \<Rightarrow> None))"


section \<open>node.py: the node\<close>

subsection \<open>What surrounds the node\<close>

text \<open>
  The transport client, the logger, \<open>uuid.uuid4\<close>, \<open>time.time\<close> and Python's \<open>str\<close> on
  values other than strings are not part of the repository's core. They are parameters:
  \<open>uuid4 E n\<close> is what the n-th call of \<open>str(uuid.uuid4())\<close> returns, \<open>time_time E n\<close> what
  the n-th call of \<open>time.time()\<close> returns, \<open>transport_raises E n c\<close> the exception the
  transport raises on the call \<open>c\<close> made after \<open>n\<close> earlier calls (None when it returns),
  and \<open>str_of E v\<close> is \<open>str(v)\<close> for a value that is not a string.
\<close>

datatype Audience = EVERYONE | DIRECT

text \<open>The quality-of-service level is a token handed to the transport unchanged.\<close>

datatype transport_call =
    Connect
  | Disconnect
  | Subscribe string nat
  | Unsubscribe string
  | Publish string json nat

record environment =
  uuid4 :: "nat \<Rightarrow> string"
  time_time :: "nat \<Rightarrow> real"
  transport_raises :: "nat \<Rightarrow> transport_call \<Rightarrow> exc option"
  str_of :: "json \<Rightarrow> string"

datatype log_entry = LogDebug string | LogInfo string | LogWarning string | LogError string

definition py_str :: "environment \<Rightarrow> json \<Rightarrow> string" where
  "py_str E v = (case v of JStr s \<Rightarrow> s | _ \<Rightarrow> str_of E v)"

fun audience_value :: "Audience \<Rightarrow> string" where
  "audience_value EVERYONE = ''everyone''"
| "audience_value DIRECT = ''direct''"

text \<open>\<open>Audience(value)\<close>: the enum member with that value, or ValueError.\<close>

definition Audience_of :: "string \<Rightarrow> exc + Audience" where
  "Audience_of v =
     (if v = ''everyone'' then Inr EVERYONE
      else if v = ''direct'' then Inr DIRECT
      else Inl (ValueError (v @ '' is not a valid Audience'')))"

subsection \<open>Message, handlers and the node's state\<close>

record Message =
  sender_id :: json
  content :: json
  timestamp :: json
  message_id :: json
  in_reply_to :: json
  audience :: Audience
  recipient_id :: json
  raw_payload :: json
  a2a_envelope :: "A2AEnvelope option"

text \<open>What a handler returns: a SendMessageRequest, an A2AMessage, or any other value
  (\<open>RValue JNull\<close> is None). A handler is a function of the message that returns or raises;
  it does not call back into the node.\<close>

datatype response =
    RRequest SendMessageRequest
  | RMessage A2AMessage
  | RValue json

type_synonym handler = "Message \<Rightarrow> exc + response"

text \<open>
  The fields of the node, followed by what an observer of the node sees: \<open>wire\<close> is the
  list of calls made on the transport client (each call is recorded, whether it returns
  or raises), \<open>logged\<close> the logger's entries, \<open>invoked\<close> the handler calls (position in the
  handler list and argument), \<open>uuid_calls\<close> and \<open>time_calls\<close> the number of identifiers and
  clock readings drawn so far.
\<close>

record AgentNode =
  room_id :: string
  agent_id :: string
  respond_to_group :: bool
  respond_to_direct :: bool
  qos :: nat
  joined :: bool
  message_handlers :: "handler list"
  wire :: "transport_call list"
  logged :: "log_entry list"
  invoked :: "(nat \<times> Message) list"
  uuid_calls :: nat
  time_calls :: nat

text \<open>The topics are fixed by \<open>__init__\<close> from \<open>room_id\<close> and \<open>agent_id\<close>, which no method
  changes.\<close>

definition group_topic :: "AgentNode \<Rightarrow> string" where
  "group_topic s = ''rooms/'' @ room_id s @ ''/group''"

definition direct_topic_to :: "AgentNode \<Rightarrow> string \<Rightarrow> string" where
  "direct_topic_to s who = ''rooms/'' @ room_id s @ ''/direct/'' @ who"

definition direct_topic :: "AgentNode \<Rightarrow> string" where
  "direct_topic s = direct_topic_to s (agent_id s)"

subsection \<open>Statements that return or raise\<close>

text \<open>A method is a function from the node's state to a result (\<open>Inl\<close> an exception that
  propagates, \<open>Inr\<close> the value returned) and the state it leaves.\<close>

type_synonym 'a action = "AgentNode \<Rightarrow> (exc + 'a) \<times> AgentNode"

definition ret :: "'a \<Rightarrow> 'a action" where
  "ret x s = (Inr x, s)"

definition raise :: "exc \<Rightarrow> 'a action" where
  "raise e s = (Inl e, s)"

definition and_then :: "'a action \<Rightarrow> ('a \<Rightarrow> 'b action) \<Rightarrow> 'b action" where
  "and_then f g s = (case f s of (Inl e, s') \<Rightarrow> (Inl e, s') | (Inr x, s') \<Rightarrow> g x s')"

text \<open>\<open>try: f  except Exception as e: h e\<close>.\<close>

definition try_except :: "'a action \<Rightarrow> (exc \<Rightarrow> 'a action) \<Rightarrow> 'a action" where
  "try_except f h s = (case f s of (Inl e, s') \<Rightarrow> h e s' | (Inr x, s') \<Rightarrow> (Inr x, s'))"

definition logger :: "log_entry \<Rightarrow> unit action" where
  "logger entry s = (Inr (), s\<lparr>logged := logged s @ [entry]\<rparr>)"

definition client_call :: "environment \<Rightarrow> transport_call \<Rightarrow> unit action" where
  "client_call E c s =
     (case transport_raises E (length (wire s)) c of
        Some e \<Rightarrow> (Inl e, s\<lparr>wire := wire s @ [c]\<rparr>)
      | None \<Rightarrow> (Inr (), s\<lparr>wire := wire s @ [c]\<rparr>))"

definition draw_uuid :: "environment \<Rightarrow> string action" where
  "draw_uuid E s = (Inr (uuid4 E (uuid_calls s)), s\<lparr>uuid_calls := Suc (uuid_calls s)\<rparr>)"

definition draw_time :: "environment \<Rightarrow> real action" where
  "draw_time E s = (Inr (time_time E (time_calls s)), s\<lparr>time_calls := Suc (time_calls s)\<rparr>)"

subsection \<open>add_message_handler, join, leave\<close>

definition add_message_handler :: "handler \<Rightarrow> AgentNode \<Rightarrow> AgentNode" where
  "add_message_handler h s = s\<lparr>message_handlers := message_handlers s @ [h]\<rparr>"

definition join :: "environment \<Rightarrow> bool action" where
  "join E s =
     (if joined s then and_then (logger (LogInfo ''Already joined the room'')) (\<lambda>_. ret True) s
      else
        and_then (client_call E Connect) (\<lambda>_.
        and_then (\<lambda>s. if respond_to_group s
                       then and_then (logger (LogInfo (''Subscribing to group messages: '' @ group_topic s)))
                              (\<lambda>_. client_call E (Subscribe (group_topic s) (qos s))) s
                       else ret () s) (\<lambda>_.
        and_then (\<lambda>s. if respond_to_direct s
                       then and_then (logger (LogInfo (''Subscribing to direct messages: '' @ direct_topic s)))
                              (\<lambda>_. client_call E (Subscribe (direct_topic s) (qos s))) s
                       else ret () s) (\<lambda>_.
        (\<lambda>s. ret True (s\<lparr>joined := True\<rparr>))))) s)"

text \<open>The body of the \<open>try\<close> in \<open>leave\<close>.\<close>

definition leave_try :: "environment \<Rightarrow> bool action" where
  "leave_try E =
     and_then (\<lambda>s. if respond_to_group s then client_call E (Unsubscribe (group_topic s)) s
                    else ret () s) (\<lambda>_.
     and_then (\<lambda>s. if respond_to_direct s then client_call E (Unsubscribe (direct_topic s)) s
                    else ret () s) (\<lambda>_.
     and_then (client_call E Disconnect) (\<lambda>_.
     (\<lambda>s. ret True (s\<lparr>joined := False\<rparr>)))))"

definition leave :: "environment \<Rightarrow> bool action" where
  "leave E s =
     (if \<not> joined s then and_then (logger (LogInfo ''Not in a room'')) (\<lambda>_. ret True) s
      else
        try_except (leave_try E)
          (\<lambda>e. and_then (logger (LogError (''Error leaving room: '' @ exc_str e))) (\<lambda>_. ret False)) s)"


subsection \<open>send_message\<close>

text \<open>The topic an outgoing message is published on: the \<open>if audience == Audience.EVERYONE\<close>
  that \<open>send_message\<close> and \<open>send_a2a_request\<close> both contain.\<close>

definition outgoing_topic :: "environment \<Rightarrow> AgentNode \<Rightarrow> Audience \<Rightarrow> json \<Rightarrow> string" where
  "outgoing_topic E s aud recipient =
     (if aud = EVERYONE then group_topic s else direct_topic_to s (py_str E recipient))"

text \<open>The arguments are \<open>content\<close>, \<open>audience\<close>, \<open>recipient_id\<close> and \<open>in_reply_to\<close>. The Message
  object draws its timestamp, then its identifier.\<close>

definition send_message :: "environment \<Rightarrow> json \<Rightarrow> Audience \<Rightarrow> json \<Rightarrow> json \<Rightarrow> json action" where
  "send_message E body aud recipient reply_to s =
     (if \<not> joined s then raise (ConnectionError ''Not joined to a room'') s
      else if aud = DIRECT \<and> \<not> truthy recipient
      then raise (ValueError ''Recipient ID required for direct messages'') s
      else
        and_then (draw_time E) (\<lambda>now.
        and_then (draw_uuid E) (\<lambda>fresh.
          let message = \<lparr> sender_id = JStr (agent_id s), content = body,
                           timestamp = JFloat now, message_id = JStr fresh,
                           in_reply_to = reply_to, audience = aud, recipient_id = recipient,
                           raw_payload = JNull, a2a_envelope = None \<rparr>
          in try_except
               (let topic = outgoing_topic E s aud recipient;
                    message_dict =
                      [(''sender_id'', sender_id message),
                       (''content'', content message),
                       (''timestamp'', timestamp message),
                       (''message_id'', message_id message),
                       (''in_reply_to'', in_reply_to message),
                       (''audience'', JStr (audience_value (audience message))),
                       (''recipient_id'', recipient_id message)]
                in and_then (client_call E (Publish topic (JDict message_dict) (qos s))) (\<lambda>_.
                   and_then (logger (LogDebug (''Sent message '' @ py_str E (message_id message)
                                             @ '' to '' @ topic))) (\<lambda>_.
                   ret (message_id message))))
               (\<lambda>e. and_then (logger (LogError (''Failed to send message: '' @ exc_str e)))
                       (\<lambda>_. ret JNull)))) s)"

subsection \<open>send_a2a_request\<close>

text \<open>\<open>create_send_message_request\<close> of a2a.py: the identifier is \<open>request_id\<close> or a fresh
  one.\<close>

definition create_send_message_request ::
  "environment \<Rightarrow> A2AMessage \<Rightarrow> json \<Rightarrow> MessageSendConfiguration option \<Rightarrow> pydict option
     \<Rightarrow> SendMessageRequest action" where
  "create_send_message_request E m request_id config md =
     and_then (if truthy request_id then ret request_id
               else and_then (draw_uuid E) (\<lambda>fresh. ret (JStr fresh))) (\<lambda>rid.
     ret \<lparr> req_id = rid,
           req_params = \<lparr> prm_message = m, prm_configuration = config, prm_metadata = md \<rparr>,
           req_method = ''message/send'',
           req_jsonrpc = JSONRPC_VERSION \<rparr>)"

text \<open>The keyword arguments of \<open>send_a2a_request\<close>. \<open>message_metadata\<close> and
  \<open>request_metadata\<close> are checked to be dictionaries and \<open>extensions\<close> and
  \<open>reference_task_ids\<close> to hold strings, so they are untyped here; \<open>parts\<close> holds A2APart
  objects.\<close>

record a2a_request_args =
  arg_text :: "string option"
  arg_message :: "A2AMessage option"
  arg_parts :: "A2APart list option"
  arg_role :: string
  arg_audience :: Audience
  arg_recipient_id :: json
  arg_configuration :: "MessageSendConfiguration option"
  arg_message_metadata :: json
  arg_request_metadata :: json
  arg_extensions :: "json list option"
  arg_reference_task_ids :: "json list option"
  arg_task_id :: "string option"
  arg_context_id :: "string option"
  arg_request_id :: json
  arg_message_id :: "string option"

text \<open>The defaults of the signature.\<close>

definition default_args :: a2a_request_args where
  "default_args =
     \<lparr> arg_text = None, arg_message = None, arg_parts = None, arg_role = ''user'',
       arg_audience = DIRECT, arg_recipient_id = JNull, arg_configuration = None,
       arg_message_metadata = JNull, arg_request_metadata = JNull, arg_extensions = None,
       arg_reference_task_ids = None, arg_task_id = None, arg_context_id = None,
       arg_request_id = JNull, arg_message_id = None \<rparr>"

text \<open>The checks of the arguments, in the order of the source; None when all pass.\<close>

definition a2a_request_check :: "AgentNode \<Rightarrow> a2a_request_args \<Rightarrow> exc option" where
  "a2a_request_check s a =
     (if \<not> joined s then Some (ConnectionError ''Not joined to a room'')
      else if arg_audience a = DIRECT \<and> \<not> truthy (arg_recipient_id a)
      then Some (ValueError ''Recipient ID required for direct A2A messages'')
      else if arg_message_metadata a \<noteq> JNull \<and> \<not> is_dict (arg_message_metadata a)
      then Some (ValueError ''message_metadata must be a dictionary if provided'')
      else if arg_request_metadata a \<noteq> JNull \<and> \<not> is_dict (arg_request_metadata a)
      then Some (ValueError ''request_metadata must be a dictionary if provided'')
      else if arg_role a \<noteq> ''user'' \<and> arg_role a \<noteq> ''agent''
      then Some (ValueError ''role must be either user or agent'')
      else if (case arg_extensions a of Some xs \<Rightarrow> \<not> list_all is_str xs | None \<Rightarrow> False)
      then Some (ValueError ''All extension identifiers must be strings'')
      else if (case arg_reference_task_ids a of Some xs \<Rightarrow> \<not> list_all is_str xs | None \<Rightarrow> False)
      then Some (ValueError ''All reference task identifiers must be strings'')
      else None)"

text \<open>\<open>part_list\<close>: the given parts, then a text part when \<open>text\<close> is given.\<close>

definition a2a_part_list :: "a2a_request_args \<Rightarrow> A2APart list" where
  "a2a_part_list a =
     (case arg_parts a of Some ps \<Rightarrow> ps | None \<Rightarrow> [])
     @ (case arg_text a of Some t \<Rightarrow> [create_text_part t None] | None \<Rightarrow> [])"

text \<open>The \<open>else\<close> branch of \<open>if message is None\<close>: the updates applied to a given message.\<close>

definition a2a_update_message :: "a2a_request_args \<Rightarrow> A2AMessage \<Rightarrow> A2AMessage" where
  "a2a_update_message a m =
     (let m = (if truthy (arg_message_metadata a)
               then m\<lparr>msg_metadata :=
                        Some (dict_merge
                                (if truthy_opt (msg_metadata m) then the (msg_metadata m) else [])
                                (the (dict_or_none (arg_message_metadata a))))\<rparr>
               else m);
          m = (case arg_extensions a of Some xs \<Rightarrow> m\<lparr>msg_extensions := Some xs\<rparr> | None \<Rightarrow> m);
          m = (case arg_reference_task_ids a of
                 Some xs \<Rightarrow> m\<lparr>msg_reference_task_ids := Some xs\<rparr> | None \<Rightarrow> m);
          m = (case arg_task_id a of Some t \<Rightarrow> m\<lparr>msg_task_id := Some t\<rparr> | None \<Rightarrow> m);
          m = (case arg_context_id a of Some c \<Rightarrow> m\<lparr>msg_context_id := Some c\<rparr> | None \<Rightarrow> m);
          m = (case arg_message_id a of
                 Some i \<Rightarrow> if i \<noteq> msg_message_id m then m\<lparr>msg_message_id := i\<rparr> else m
               | None \<Rightarrow> m)
      in m)"

definition a2a_constructed_message :: "environment \<Rightarrow> a2a_request_args \<Rightarrow> A2AMessage action" where
  "a2a_constructed_message E a =
     (case arg_message a of
        None \<Rightarrow>
          if a2a_part_list a = []
          then raise (ValueError ''Either message, parts, or text must be provided'')
          else
            and_then (if truthy_opt (arg_message_id a) then ret (the (arg_message_id a))
                      else draw_uuid E) (\<lambda>mid.
            ret \<lparr> msg_role = arg_role a,
                  msg_parts = a2a_part_list a,
                  msg_message_id = mid,
                  msg_kind = JStr ''message'',
                  msg_metadata = dict_or_none (arg_message_metadata a),
                  msg_extensions = arg_extensions a,
                  msg_reference_task_ids = arg_reference_task_ids a,
                  msg_task_id = arg_task_id a,
                  msg_context_id = arg_context_id a \<rparr>)
      | Some m \<Rightarrow> ret (a2a_update_message a m))"

definition send_a2a_request :: "environment \<Rightarrow> a2a_request_args \<Rightarrow> json action" where
  "send_a2a_request E a s =
     (case a2a_request_check s a of
        Some e \<Rightarrow> raise e s
      | None \<Rightarrow>
          and_then (a2a_constructed_message E a) (\<lambda>constructed.
          and_then (create_send_message_request E constructed (arg_request_id a)
                      (arg_configuration a) (dict_or_none (arg_request_metadata a))) (\<lambda>request.
            let topic = outgoing_topic E s (arg_audience a) (arg_recipient_id a)
            in and_then (client_call E
                           (Publish topic (JDict (SendMessageRequest_to_dict request)) (qos s))) (\<lambda>_.
               and_then (logger (LogDebug (''Sent A2A request '' @ py_str E (req_id request)
                                         @ '' to '' @ topic))) (\<lambda>_.
               ret (req_id request))))) s)"


subsection \<open>_handle_message: from the payload to a Message\<close>

text \<open>Lines 358 to 366: the audience named by the payload, or the one the topic implies.\<close>

definition is_direct_topic :: "AgentNode \<Rightarrow> string \<Rightarrow> bool" where
  "is_direct_topic s topic = prefix (''rooms/'' @ room_id s @ ''/direct/'') topic"

definition detect_audience :: "AgentNode \<Rightarrow> string \<Rightarrow> pydict \<Rightarrow> Audience" where
  "detect_audience s topic payload =
     (case py_get payload ''audience'' of
        JStr given \<Rightarrow>
          (case Audience_of given of
             Inr a \<Rightarrow> a
           | Inl err \<Rightarrow> if is_direct_topic s topic then DIRECT else EVERYONE)
      | _ \<Rightarrow> if is_direct_topic s topic then DIRECT else EVERYONE)"

text \<open>Lines 368 to 370.\<close>

definition detect_recipient :: "AgentNode \<Rightarrow> Audience \<Rightarrow> pydict \<Rightarrow> json" where
  "detect_recipient s aud payload =
     (let recipient = (if aud = DIRECT then py_get payload ''recipient_id'' else JNull)
      in if aud = DIRECT \<and> recipient = JNull then JStr (agent_id s) else recipient)"

text \<open>Lines 385 to 389: the first of the four keys whose value is a string.\<close>

fun scan_reply_keys :: "pydict \<Rightarrow> string list \<Rightarrow> json" where
  "scan_reply_keys md [] = JNull"
| "scan_reply_keys md (k # ks) =
     (case py_get md k of JStr s \<Rightarrow> JStr s | _ \<Rightarrow> scan_reply_keys md ks)"

definition reply_keys :: "string list" where
  "reply_keys = [''in_reply_to'', ''inReplyTo'', ''reply_to'', ''replyTo'']"

text \<open>Lines 377 to 401, the A2A branch: None is the early \<open>return\<close> for the node's own
  message.\<close>

definition a2a_branch ::
  "AgentNode \<Rightarrow> pydict \<Rightarrow> Audience \<Rightarrow> json \<Rightarrow> json \<Rightarrow> A2AEnvelope \<Rightarrow> A2AMessage
     \<Rightarrow> Message option" where
  "a2a_branch s payload aud recipient stamp envelope message_obj =
     (let sender = derive_sender_id_from_message message_obj
      in if sender = agent_id s then None
         else
           Some \<lparr> sender_id = JStr sender,
                  content = (if truthy_opt (primary_text message_obj)
                             then JStr (the (primary_text message_obj))
                             else JDict (A2AMessage_to_dict message_obj)),
                  timestamp = stamp,
                  message_id = JStr (msg_message_id message_obj),
                  in_reply_to =
                    scan_reply_keys
                      (if truthy_opt (msg_metadata message_obj)
                       then the (msg_metadata message_obj) else [])
                      reply_keys,
                  audience = aud,
                  recipient_id = recipient,
                  raw_payload = JDict payload,
                  a2a_envelope = Some envelope \<rparr>)"

text \<open>Lines 404 to 413, the body of the \<open>try\<close> of the other branch: the sender, the message
  identifier and the content, or None for the node's own message; a missing key raises
  KeyError.\<close>

definition legacy_try :: "environment \<Rightarrow> pydict \<Rightarrow> (json \<times> json \<times> json) option action" where
  "legacy_try E payload s =
     (case py_item payload ''sender_id'' of
        Inl e \<Rightarrow> raise e s
      | Inr sender \<Rightarrow>
          if sender = JStr (agent_id s) then ret None s
          else
            and_then
              (let given = py_or (py_get payload ''message_id'') (py_get payload ''messageId'')
               in if truthy given then ret given
                  else and_then (draw_uuid E) (\<lambda>fresh. ret (JStr fresh))) (\<lambda>mid.
              (case py_item payload ''content'' of
                 Inl e \<Rightarrow> raise e
               | Inr body \<Rightarrow> ret (Some (sender, mid, body)))) s)"

text \<open>Lines 403 to 427: \<open>except KeyError\<close> logs a warning and returns.\<close>

definition legacy_branch ::
  "environment \<Rightarrow> pydict \<Rightarrow> Audience \<Rightarrow> json \<Rightarrow> json \<Rightarrow> Message option action" where
  "legacy_branch E payload aud recipient stamp =
     try_except
       (and_then (legacy_try E payload) (\<lambda>fields.
          case fields of
            None \<Rightarrow> ret None
          | Some (sender, mid, body) \<Rightarrow>
              ret (Some \<lparr> sender_id = sender, content = body, timestamp = stamp,
                          message_id = mid,
                          in_reply_to =
                            py_or (py_get payload ''in_reply_to'') (py_get payload ''inReplyTo''),
                          audience = aud, recipient_id = recipient,
                          raw_payload = JDict payload, a2a_envelope = None \<rparr>)))
       (\<lambda>e. case e of
               KeyError k \<Rightarrow>
                 and_then (logger (LogWarning (''Malformed message received: '' @ exc_str e)))
                   (\<lambda>_. ret None)
             | _ \<Rightarrow> raise e)"

text \<open>Lines 354 to 427: the Message built from the payload, or None when the method
  returns before it reaches the handlers. \<open>time.time()\<close> is the default argument of
  \<open>payload.get\<close>, so the clock is read for every dictionary.\<close>

definition normalize_payload :: "environment \<Rightarrow> string \<Rightarrow> json \<Rightarrow> Message option action" where
  "normalize_payload E topic payload s =
     (case payload of
        JDict d \<Rightarrow>
          (let aud = detect_audience s topic d;
               recipient = detect_recipient s aud d
           in and_then (draw_time E) (\<lambda>now.
                let stamp = py_get_default d ''timestamp'' (JFloat now)
                in case parse_a2a_envelope payload of
                     Some envelope \<Rightarrow>
                       (case A2AEnvelope_message envelope of
                          Some message_obj \<Rightarrow>
                            ret (a2a_branch s d aud recipient stamp envelope message_obj)
                        | None \<Rightarrow> legacy_branch E d aud recipient stamp)
                   | None \<Rightarrow> legacy_branch E d aud recipient stamp) s)
      | _ \<Rightarrow> and_then (logger (LogWarning (''Ignoring non-dict payload on '' @ topic)))
               (\<lambda>_. ret None) s)"

subsection \<open>_handle_message: the handlers\<close>

text \<open>The topic a ready-made request or envelope is published on.\<close>

definition target_topic :: "environment \<Rightarrow> AgentNode \<Rightarrow> Message \<Rightarrow> string" where
  "target_topic E s message =
     (if audience message = EVERYONE then group_topic s
      else direct_topic_to s (py_str E (sender_id message)))"

text \<open>Lines 437 to 485, the body of the \<open>try\<close> for the handler at position \<open>i\<close>.\<close>

definition handler_try :: "environment \<Rightarrow> Message \<Rightarrow> nat \<Rightarrow> handler \<Rightarrow> unit action" where
  "handler_try E message i h s =
     (let s = s\<lparr>invoked := invoked s @ [(i, message)]\<rparr>;
          mirrored = (if audience message = DIRECT then sender_id message else JNull)
      in case h message of
           Inl e \<Rightarrow> raise e s
         | Inr (RValue JNull) \<Rightarrow> ret () s
         | Inr (RRequest request) \<Rightarrow>
             client_call E
               (Publish (target_topic E s message) (JDict (SendMessageRequest_to_dict request))
                  (qos s)) s
         | Inr (RMessage reply) \<Rightarrow>
             and_then
               (send_a2a_request E
                  (default_args\<lparr>arg_message := Some reply, arg_audience := audience message,
                                arg_recipient_id := mirrored\<rparr>))
               (\<lambda>_. ret ()) s
         | Inr (RValue v) \<Rightarrow>
             if is_dict v \<and> is_a2a_envelope v
             then client_call E (Publish (target_topic E s message) v (qos s)) s
             else
               and_then (send_message E v (audience message) mirrored (message_id message))
                 (\<lambda>_. ret ()) s)"

text \<open>Lines 435 to 487: each handler runs inside \<open>try ... except Exception\<close>.\<close>

definition handler_step :: "environment \<Rightarrow> Message \<Rightarrow> nat \<Rightarrow> handler \<Rightarrow> unit action" where
  "handler_step E message i h =
     try_except (handler_try E message i h)
       (\<lambda>e. logger (LogError (''Error in message handler: '' @ exc_str e)))"

fun run_handlers :: "environment \<Rightarrow> Message \<Rightarrow> nat \<Rightarrow> handler list \<Rightarrow> unit action" where
  "run_handlers E message i [] s = ret () s"
| "run_handlers E message i (h # hs) s =
     and_then (handler_step E message i h) (\<lambda>_. run_handlers E message (Suc i) hs) s"

definition dispatch :: "environment \<Rightarrow> Message \<Rightarrow> unit action" where
  "dispatch E message s =
     and_then
       (logger (LogInfo (''Received message from '' @ py_str E (sender_id message) @ '': ''
                      @ take 50 (py_str E (content message)) @ ''...'')))
       (\<lambda>_ s. run_handlers E message 0 (message_handlers s) s) s"

definition handle_message :: "environment \<Rightarrow> string \<Rightarrow> json \<Rightarrow> unit action" where
  "handle_message E topic payload =
     and_then (normalize_payload E topic payload) (\<lambda>built.
       case built of None \<Rightarrow> ret () | Some message \<Rightarrow> dispatch E message)"

section \<open>Notions the properties are stated with\<close>

text \<open>A value that is a string and is not empty after trimming: the test
  \<open>isinstance(value, str) and value.strip()\<close>.\<close>

definition nonblank_string :: "json \<Rightarrow> bool" where
  "nonblank_string v = (case v of JStr s \<Rightarrow> py_strip s \<noteq> [] | _ \<Rightarrow> False)"

text \<open>The message of the A2A branch: the test \<open>a2a_envelope and a2a_envelope.message\<close> of
  line 376 holds exactly when this is not None.\<close>

definition embedded_message :: "json \<Rightarrow> A2AMessage option" where
  "embedded_message payload =
     (case parse_a2a_envelope payload of Some e \<Rightarrow> A2AEnvelope_message e | None \<Rightarrow> None)"

text \<open>The transport calls made between two states, each with its position on the wire,
  and whether the transport raised on one of them.\<close>

definition calls_since :: "AgentNode \<Rightarrow> AgentNode \<Rightarrow> (nat \<times> transport_call) list" where
  "calls_since s s' = enumerate (length (wire s)) (drop (length (wire s)) (wire s'))"

definition transport_raised :: "environment \<Rightarrow> AgentNode \<Rightarrow> AgentNode \<Rightarrow> bool" where
  "transport_raised E s s' =
     list_ex (\<lambda>(k, c). transport_raises E k c \<noteq> None) (calls_since s s')"


section \<open>Example values\<close>

text \<open>An environment whose transport never raises, and one whose \<open>disconnect\<close> raises.\<close>

definition quiet_environment :: environment where
  "quiet_environment =
     \<lparr> uuid4 = (\<lambda>n. ''uuid-'' @ replicate n (CHR ''i'')),
       time_time = (\<lambda>n. 1700000000 + real n),
       transport_raises = (\<lambda>n c. None),
       str_of = (\<lambda>v. ''<value>'') \<rparr>"

definition failing_disconnect :: environment where
  "failing_disconnect =
     quiet_environment
       \<lparr> transport_raises :=
           (\<lambda>n c. if c = Disconnect then Some (ConnectionError ''broker unreachable'') else None) \<rparr>"

text \<open>A joined node with no handler.\<close>

definition example_node :: AgentNode where
  "example_node =
     \<lparr> room_id = ''room'', agent_id = ''agent'', respond_to_group = True,
       respond_to_direct = True, qos = 1, joined = True, message_handlers = [],
       wire = [], logged = [], invoked = [], uuid_calls = 0, time_calls = 0 \<rparr>"

text \<open>\<open>create_text_message(text, role=role, message_id=mid, metadata=md)\<close> with a message
  identifier given and the other arguments left out.\<close>

definition text_message :: "string \<Rightarrow> string \<Rightarrow> string \<Rightarrow> pydict option \<Rightarrow> A2AMessage" where
  "text_message t role mid md =
     \<lparr> msg_role = role, msg_parts = [create_text_part t None], msg_message_id = mid,
       msg_kind = JStr ''message'', msg_metadata = md, msg_extensions = None,
       msg_reference_task_ids = None, msg_task_id = None, msg_context_id = None \<rparr>"

text \<open>\<open>create_send_message_request(message, request_id=rid).to_dict()\<close> with a request
  identifier given.\<close>

definition request_payload :: "A2AMessage \<Rightarrow> string \<Rightarrow> json" where
  "request_payload m rid =
     JDict (SendMessageRequest_to_dict
       \<lparr> req_id = JStr rid,
         req_params = \<lparr> prm_message = m, prm_configuration = None, prm_metadata = None \<rparr>,
         req_method = ''message/send'',
         req_jsonrpc = JSONRPC_VERSION \<rparr>)"

text \<open>A message without metadata whose \<open>context_id\<close> is the empty string.\<close>

definition blank_context_message :: A2AMessage where
  "blank_context_message =
     (text_message ''hi'' ''user'' ''m-1'' None)
       \<lparr> msg_task_id := Some ''task-7'', msg_context_id := Some [] \<rparr>"

text \<open>A handler that answers every message with the string "reply", and the example node
  with that handler registered.\<close>

definition reply_handler :: handler where
  "reply_handler m = Inr (RValue (JStr ''reply''))"

definition replying_node :: AgentNode where
  "replying_node = add_message_handler reply_handler example_node"

text \<open>A text message from "peer" whose only part carries the empty string.\<close>

definition blank_text_message :: A2AMessage where
  "blank_text_message = text_message [] ''user'' ''m-1'' (Some [(''sender_id'', JStr ''peer'')])"

text \<open>A step of the node that calls no handler and changes none of the node's own
  fields: it may only draw identifiers and clock readings, call the transport and log.\<close>

definition only_sends :: "AgentNode \<Rightarrow> AgentNode \<Rightarrow> bool" where
  "only_sends s s' =
     (room_id s' = room_id s \<and> agent_id s' = agent_id s \<and> qos s' = qos s \<and>
      joined s' = joined s \<and> message_handlers s' = message_handlers s \<and>
      invoked s' = invoked s \<and> prefix (wire s) (wire s') \<and> prefix (logged s) (logged s'))"

text \<open>A transport whose \<open>publish\<close> always raises.\<close>

definition failing_publish :: environment where
  "failing_publish =
     quiet_environment
       \<lparr> transport_raises :=
           (\<lambda>n c. case c of
                     Publish topic payload level \<Rightarrow> Some (ConnectionError ''broker unreachable'')
                   | _ \<Rightarrow> None) \<rparr>"

text \<open>A direct message from "peer", as the node hands it to its handlers.\<close>

definition peer_message :: Message where
  "peer_message =
     \<lparr> sender_id = JStr ''peer'', content = JStr ''Ping'', timestamp = JFloat 1700000000,
       message_id = JStr ''msg-1'', in_reply_to = JNull, audience = DIRECT,
       recipient_id = JStr ''agent'', raw_payload = JNull, a2a_envelope = None \<rparr>"

text \<open>A handler that raises, one that returns a ready-made request, and the example node
  with these two and the replying handler registered, in that order.\<close>

definition raising_handler :: handler where
  "raising_handler m = Inl (OtherError ''boom'')"

definition request_handler :: handler where
  "request_handler m =
     Inr (RRequest
       \<lparr> req_id = JStr ''req-9'',
         req_params = \<lparr> prm_message = text_message ''Pong'' ''agent'' ''m-2'' None,
                        prm_configuration = None, prm_metadata = None \<rparr>,
         req_method = ''message/send'',
         req_jsonrpc = JSONRPC_VERSION \<rparr>)"

definition faulty_node :: AgentNode where
  "faulty_node =
     add_message_handler reply_handler
       (add_message_handler request_handler
          (add_message_handler raising_handler example_node))"

text \<open>The checks of \<open>send_a2a_request\<close> other than the ones on the node being joined and on
  the recipient: the two metadata arguments are None or dictionaries, the role is
  "user" or "agent", the extensions and reference task ids are strings, and a message,
  a part or a text is given.\<close>

definition a2a_arguments_accepted :: "a2a_request_args \<Rightarrow> bool" where
  "a2a_arguments_accepted a =
     ((arg_message_metadata a = JNull \<or> is_dict (arg_message_metadata a)) \<and>
      (arg_request_metadata a = JNull \<or> is_dict (arg_request_metadata a)) \<and>
      (arg_role a = ''user'' \<or> arg_role a = ''agent'') \<and>
      (case arg_extensions a of Some xs \<Rightarrow> list_all is_str xs | None \<Rightarrow> True) \<and>
      (case arg_reference_task_ids a of Some xs \<Rightarrow> list_all is_str xs | None \<Rightarrow> True) \<and>
      (arg_message a \<noteq> None \<or> a2a_part_list a \<noteq> []))"

text \<open>The topics of the \<open>publish\<close> calls on the wire, in order.\<close>

fun publish_topic :: "transport_call \<Rightarrow> string option" where
  "publish_topic (Publish topic payload level) = Some topic"
| "publish_topic c = None"

definition published_topics :: "AgentNode \<Rightarrow> string list" where
  "published_topics s = List.map_filter publish_topic (wire s)"

text \<open>The handler of the specification's second scenario: it answers with the A2A message
  "Pong".\<close>

definition pong_handler :: handler where
  "pong_handler m = Inr (RMessage (text_message ''Pong'' ''agent'' ''m-2'' None))"

definition pong_node :: AgentNode where
  "pong_node = add_message_handler pong_handler example_node"

text \<open>The values that a round trip through the tree reproduces. A part: its data is a
  dictionary (distinct keys) without the keys "kind" and "metadata", and its metadata is
  None or not empty. A message: the role is "user" or "agent", there is at least one
  part and every part is as above, the message identifier is not empty, and each
  optional field is None or not empty.\<close>

definition plain_part :: "A2APart \<Rightarrow> bool" where
  "plain_part p =
     (distinct (map fst (part_data p)) \<and>
      ''kind'' \<notin> fst ` set (part_data p) \<and>
      ''metadata'' \<notin> fst ` set (part_data p) \<and>
      part_metadata p \<noteq> Some [])"

definition plain_message :: "A2AMessage \<Rightarrow> bool" where
  "plain_message m =
     ((msg_role m = ''user'' \<or> msg_role m = ''agent'') \<and>
      msg_parts m \<noteq> [] \<and> list_all plain_part (msg_parts m) \<and>
      msg_message_id m \<noteq> [] \<and>
      msg_metadata m \<noteq> Some [] \<and> msg_extensions m \<noteq> Some [] \<and>
      msg_reference_task_ids m \<noteq> Some [] \<and>
      msg_task_id m \<noteq> Some [] \<and> msg_context_id m \<noteq> Some [])"

text \<open>A configuration: the optional list and dictionary are None or not empty, the history
  length is None or an integer, the blocking flag None or a boolean. Parameters: a
  message and a configuration as above, metadata None or not empty. An envelope: version
  "2.0", a method that is None or true as a condition, parameters as above.\<close>

definition plain_configuration :: "MessageSendConfiguration \<Rightarrow> bool" where
  "plain_configuration c =
     (cfg_accepted_output_modes c \<noteq> Some [] \<and>
      (cfg_history_length c = JNull \<or> is_int (cfg_history_length c)) \<and>
      cfg_push_notification_config c \<noteq> Some [] \<and>
      (cfg_blocking c = JNull \<or> is_bool (cfg_blocking c)))"

definition plain_params :: "MessageSendParams \<Rightarrow> bool" where
  "plain_params p =
     (plain_message (prm_message p) \<and>
      (case prm_configuration p of Some c \<Rightarrow> plain_configuration c | None \<Rightarrow> True) \<and>
      prm_metadata p \<noteq> Some [])"

definition plain_envelope :: "A2AEnvelope \<Rightarrow> bool" where
  "plain_envelope e =
     (env_jsonrpc e = JSONRPC_VERSION \<and>
      (env_method e = JNull \<or> truthy (env_method e)) \<and>
      (case env_params e of Some p \<Rightarrow> plain_params p | None \<Rightarrow> True))"

text \<open>A result envelope as the constructor builds it when only \<open>jsonrpc\<close> and \<open>id\<close> are
  given: \<open>raw\<close> is the empty dictionary.\<close>

definition bare_envelope :: A2AEnvelope where
  "bare_envelope =
     \<lparr> env_jsonrpc = ''2.0'', env_id = JStr ''req-1'', env_method = JNull, env_params = None,
       env_result = JNull, env_error = None, env_raw = [] \<rparr>"


section \<open>Auxiliary facts\<close>

lemma truthy_opt_iff: "truthy_opt x = (x \<noteq> None \<and> x \<noteq> Some [])"
  by (cases x) auto

lemma topics_frame [simp]:
  "group_topic (s\<lparr>wire := w\<rparr>) = group_topic s"
  "direct_topic (s\<lparr>wire := w\<rparr>) = direct_topic s"
  "direct_topic_to (s\<lparr>wire := w\<rparr>) = direct_topic_to s"
  "group_topic (s\<lparr>logged := l\<rparr>) = group_topic s"
  "direct_topic (s\<lparr>logged := l\<rparr>) = direct_topic s"
  "direct_topic_to (s\<lparr>logged := l\<rparr>) = direct_topic_to s"
  "group_topic (s\<lparr>invoked := i\<rparr>) = group_topic s"
  "direct_topic (s\<lparr>invoked := i\<rparr>) = direct_topic s"
  "direct_topic_to (s\<lparr>invoked := i\<rparr>) = direct_topic_to s"
  "group_topic (s\<lparr>uuid_calls := n\<rparr>) = group_topic s"
  "direct_topic (s\<lparr>uuid_calls := n\<rparr>) = direct_topic s"
  "direct_topic_to (s\<lparr>uuid_calls := n\<rparr>) = direct_topic_to s"
  "group_topic (s\<lparr>time_calls := n\<rparr>) = group_topic s"
  "direct_topic (s\<lparr>time_calls := n\<rparr>) = direct_topic s"
  "direct_topic_to (s\<lparr>time_calls := n\<rparr>) = direct_topic_to s"
  "group_topic (s\<lparr>joined := b\<rparr>) = group_topic s"
  "direct_topic (s\<lparr>joined := b\<rparr>) = direct_topic s"
  "direct_topic_to (s\<lparr>joined := b\<rparr>) = direct_topic_to s"
  by (simp_all add: group_topic_def direct_topic_def direct_topic_to_def fun_eq_iff)

subsection \<open>The sender scan\<close>

lemma scan_sender_keys_find:
  "scan_sender_keys md ks =
     (case find (\<lambda>k. nonblank_string (py_get md k)) ks of
        None \<Rightarrow> None
      | Some k \<Rightarrow> str_or_none (py_get md k))"
  by (induction ks) (auto simp: nonblank_string_def split: json.splits)

lemma nonblank_string_str: "nonblank_string v \<Longrightarrow> \<exists>s. v = JStr s"
  by (cases v) (auto simp: nonblank_string_def)

subsection \<open>From the payload to a Message\<close>

lemma detect_audience_eq:
  "detect_audience s topic d =
     (if py_get d ''audience'' = JStr ''everyone'' then EVERYONE
      else if py_get d ''audience'' = JStr ''direct'' then DIRECT
      else if prefix (''rooms/'' @ room_id s @ ''/direct/'') topic then DIRECT
      else EVERYONE)"
  by (simp add: detect_audience_def Audience_of_def is_direct_topic_def split: json.splits)

lemma a2a_branch_audience:
  "a2a_branch s d aud recipient stamp envelope m = Some msg \<Longrightarrow> audience msg = aud"
  by (auto simp: a2a_branch_def Let_def split: if_splits)

lemma legacy_branch_audience:
  "legacy_branch E d aud recipient stamp s1 = (Inr (Some msg), s') \<Longrightarrow> audience msg = aud"
  by (auto simp: legacy_branch_def try_except_def and_then_def ret_def raise_def logger_def
           split: prod.splits sum.splits option.splits exc.splits)

lemma normalize_payload_dict:
  "normalize_payload E topic (JDict d) s =
     (let aud = detect_audience s topic d;
          recipient = detect_recipient s aud d;
          s1 = s\<lparr>time_calls := Suc (time_calls s)\<rparr>;
          stamp = py_get_default d ''timestamp'' (JFloat (time_time E (time_calls s)))
      in case embedded_message (JDict d) of
           Some m \<Rightarrow>
             (Inr (a2a_branch s d aud recipient stamp (the (parse_a2a_envelope (JDict d))) m), s1)
         | None \<Rightarrow> legacy_branch E d aud recipient stamp s1)"
  by (auto simp: normalize_payload_def embedded_message_def Let_def and_then_def draw_time_def
                 ret_def
           split: option.splits)

lemma normalize_payload_audience:
  "normalize_payload E topic (JDict d) s = (Inr (Some msg), s') \<Longrightarrow>
   audience msg = detect_audience s topic d"
  by (auto simp: normalize_payload_dict Let_def
           dest: a2a_branch_audience legacy_branch_audience
           split: option.splits)

lemma legacy_branch_self:
  "map_of d ''sender_id'' = Some (JStr (agent_id s)) \<Longrightarrow>
   legacy_branch E d aud recipient stamp s = (Inr None, s)"
  by (simp add: legacy_branch_def legacy_try_def try_except_def and_then_def ret_def py_item_def)

lemma a2a_branch_self:
  "derive_sender_id_from_message m = agent_id s \<Longrightarrow>
   a2a_branch s d aud recipient stamp e m = None"
  by (simp add: a2a_branch_def)

subsection \<open>leave\<close>

lemma leave_try_cases:
  "leave_try E s = (r, s') \<Longrightarrow>
     take (length (wire s)) (wire s') = wire s \<and>
       (if transport_raised E s s'
        then (\<exists>e. r = Inl e) \<and> joined s' = joined s
        else r = Inr True \<and> \<not> joined s')"
  unfolding leave_try_def and_then_def client_call_def ret_def transport_raised_def calls_since_def
  by (auto split: if_splits option.splits prod.splits sum.splits)


subsection \<open>The node's own messages\<close>

lemma normalize_payload_self_a2a:
  assumes "embedded_message payload = Some m"
    and "derive_sender_id_from_message m = agent_id s"
  shows "normalize_payload E topic payload s = (Inr None, s\<lparr>time_calls := Suc (time_calls s)\<rparr>)"
proof (cases payload)
  case (JDict d)
  with assms show ?thesis
    by (simp add: normalize_payload_dict Let_def a2a_branch_self)
qed (use assms in \<open>auto simp: embedded_message_def parse_a2a_envelope_def is_a2a_envelope_def\<close>)

lemma normalize_payload_self_legacy:
  assumes "embedded_message (JDict d) = None"
    and "map_of d ''sender_id'' = Some (JStr (agent_id s))"
  shows "normalize_payload E topic (JDict d) s
           = (Inr None, s\<lparr>time_calls := Suc (time_calls s)\<rparr>)"
proof -
  have "legacy_branch E d (detect_audience s topic d)
          (detect_recipient s (detect_audience s topic d) d)
          (py_get_default d ''timestamp'' (JFloat (time_time E (time_calls s))))
          (s\<lparr>time_calls := Suc (time_calls s)\<rparr>)
        = (Inr None, s\<lparr>time_calls := Suc (time_calls s)\<rparr>)"
    using assms(2) by (intro legacy_branch_self) simp
  with assms(1) show ?thesis
    by (simp add: normalize_payload_dict Let_def)
qed

lemma handle_message_dropped:
  assumes "normalize_payload E topic payload s = (Inr None, s1)"
  shows "handle_message E topic payload s = (Inr (), s1)"
  using assms by (simp add: handle_message_def and_then_def ret_def)

subsection \<open>Malformed payloads\<close>


lemma normalize_payload_non_dict:
  "\<not> is_dict payload \<Longrightarrow>
   normalize_payload E topic payload s
     = (Inr None, s\<lparr>logged := logged s @ [LogWarning (''Ignoring non-dict payload on '' @ topic)]\<rparr>)"
  by (cases payload) (simp_all add: normalize_payload_def and_then_def logger_def ret_def)

lemma legacy_branch_missing_sender:
  "map_of d ''sender_id'' = None \<Longrightarrow>
   legacy_branch E d aud recipient stamp s
     = (Inr None, s\<lparr>logged := logged s @
          [LogWarning (''Malformed message received: '' @ exc_str (KeyError ''sender_id''))]\<rparr>)"
  by (simp add: legacy_branch_def legacy_try_def try_except_def and_then_def ret_def raise_def
                py_item_def logger_def)

lemma legacy_branch_missing_content:
  assumes "map_of d ''sender_id'' = Some sender" and "sender \<noteq> JStr (agent_id s)"
    and "map_of d ''content'' = None"
  shows "\<exists>s1. legacy_branch E d aud recipient stamp s = (Inr None, s1) \<and>
           invoked s1 = invoked s \<and> wire s1 = wire s \<and>
           logged s1 = logged s @
             [LogWarning (''Malformed message received: '' @ exc_str (KeyError ''content''))]"
  using assms
  by (simp add: legacy_branch_def legacy_try_def try_except_def and_then_def ret_def raise_def
                py_item_def logger_def draw_uuid_def Let_def)

lemma not_envelope_no_message: "\<not> is_a2a_envelope payload \<Longrightarrow> embedded_message payload = None"
  by (simp add: embedded_message_def parse_a2a_envelope_def)

subsection \<open>The content of an A2A message\<close>

lemma primary_text_of_find:
  "primary_text_of ps =
     (case find (\<lambda>p. A2APart_text p \<noteq> None) ps of None \<Rightarrow> None | Some p \<Rightarrow> A2APart_text p)"
  by (induction ps) (auto split: option.splits)

lemma embedded_message_dict: "embedded_message payload = Some m \<Longrightarrow> \<exists>d. payload = JDict d"
  by (cases payload)
     (auto simp: embedded_message_def parse_a2a_envelope_def is_a2a_envelope_def)

lemma a2a_branch_content:
  "derive_sender_id_from_message m \<noteq> agent_id s \<Longrightarrow>
   \<exists>msg. a2a_branch s d aud recipient stamp e m = Some msg \<and>
     sender_id msg = JStr (derive_sender_id_from_message m) \<and>
     content msg =
       (case primary_text m of
          Some t \<Rightarrow> if t \<noteq> [] then JStr t else JDict (A2AMessage_to_dict m)
        | None \<Rightarrow> JDict (A2AMessage_to_dict m))"
  by (cases "primary_text m") (simp_all add: a2a_branch_def Let_def)

subsection \<open>Steps that call no handler\<close>


lemma only_sends_refl [simp]: "only_sends s s"
  by (simp add: only_sends_def)

lemma only_sends_trans: "only_sends s s1 \<Longrightarrow> only_sends s1 s2 \<Longrightarrow> only_sends s s2"
  by (auto simp: only_sends_def)

lemma only_sends_updates [simp]:
  "only_sends s (s\<lparr>logged := logged s @ l\<rparr>)"
  "only_sends s (s\<lparr>wire := wire s @ w\<rparr>)"
  "only_sends s (s\<lparr>uuid_calls := n\<rparr>)"
  "only_sends s (s\<lparr>time_calls := n\<rparr>)"
  by (simp_all add: only_sends_def)

lemma only_sends_logger: "only_sends s (snd (logger entry s))"
  by (simp add: logger_def)

lemma only_sends_client_call: "only_sends s (snd (client_call E c s))"
  by (simp add: client_call_def split: option.splits)

lemma only_sends_draw: "only_sends s (snd (draw_uuid E s))" "only_sends s (snd (draw_time E s))"
  by (simp_all add: draw_uuid_def draw_time_def)

lemma only_sends_and_then:
  assumes "\<And>s. only_sends s (snd (f s))" and "\<And>x s. only_sends s (snd (g x s))"
  shows "only_sends s (snd (and_then f g s))"
proof (cases "f s")
  case (Pair r s1)
  with assms(1) [of s] have 1: "only_sends s s1" by simp
  show ?thesis
  proof (cases r)
    case (Inl e)
    with Pair 1 show ?thesis by (simp add: and_then_def)
  next
    case (Inr x)
    with Pair have "and_then f g s = g x s1" by (simp add: and_then_def)
    with only_sends_trans [OF 1 assms(2) [of s1 x]] show ?thesis by simp
  qed
qed

lemma only_sends_try_except:
  assumes "\<And>s. only_sends s (snd (f s))" and "\<And>e s. only_sends s (snd (h e s))"
  shows "only_sends s (snd (try_except f h s))"
proof (cases "f s")
  case (Pair r s1)
  with assms(1) [of s] have 1: "only_sends s s1" by simp
  show ?thesis
  proof (cases r)
    case (Inl e)
    with Pair have "try_except f h s = h e s1" by (simp add: try_except_def)
    with only_sends_trans [OF 1 assms(2) [of s1 e]] show ?thesis by simp
  next
    case (Inr x)
    with Pair 1 show ?thesis by (simp add: try_except_def)
  qed
qed

lemma only_sends_ret_raise [simp]: "only_sends s (snd (ret x s))" "only_sends s (snd (raise e s))"
  by (simp_all add: ret_def raise_def)

lemma only_sends_send_message:
  "only_sends s (snd (send_message E body aud recipient reply_to s))"
proof (cases "\<not> joined s \<or> (aud = DIRECT \<and> \<not> truthy recipient)")
  case True
  then show ?thesis
    by (auto simp: send_message_def)
next
  case False
  then show ?thesis
    unfolding send_message_def Let_def
    apply simp
    apply (intro only_sends_and_then only_sends_try_except only_sends_draw
                 only_sends_client_call only_sends_logger only_sends_ret_raise)
    done
qed

lemma only_sends_create_request:
  "only_sends s (snd (create_send_message_request E m request_id config md s))"
  unfolding create_send_message_request_def
  by (cases "truthy request_id")
     (simp_all, (intro only_sends_and_then only_sends_draw only_sends_ret_raise)+)

lemma only_sends_constructed:
  "only_sends s (snd (a2a_constructed_message E a s))"
  unfolding a2a_constructed_message_def
  apply (cases "arg_message a"; cases "a2a_part_list a = []"; cases "truthy_opt (arg_message_id a)")
         apply simp_all
   apply (intro only_sends_and_then only_sends_draw only_sends_ret_raise)+
  done

lemma only_sends_send_a2a_request:
  "only_sends s (snd (send_a2a_request E a s))"
proof (cases "a2a_request_check s a")
  case None
  then show ?thesis
    unfolding send_a2a_request_def Let_def
    apply simp
    apply (intro only_sends_and_then only_sends_constructed only_sends_create_request
                 only_sends_client_call only_sends_logger only_sends_ret_raise)
    done
next
  case (Some e)
  then show ?thesis
    by (simp add: send_a2a_request_def)
qed

subsection \<open>The handler loop\<close>


lemma only_sends_send_unit:
  "only_sends s (snd (and_then (send_a2a_request E a) (\<lambda>_. ret ()) s))"
  "only_sends s (snd (and_then (send_message E body aud recipient reply_to) (\<lambda>_. ret ()) s))"
  by (intro only_sends_and_then only_sends_send_a2a_request only_sends_send_message
            only_sends_ret_raise)+

lemma handler_try_frame:
  "only_sends (s\<lparr>invoked := invoked s @ [(i, m)]\<rparr>) (snd (handler_try E m i h s))"
proof (cases "h m")
  case (Inl e)
  then show ?thesis by (simp add: handler_try_def Let_def)
next
  case (Inr resp)
  show ?thesis
  proof (cases resp)
    case (RRequest request)
    with Inr show ?thesis
      by (simp add: handler_try_def Let_def only_sends_client_call)
  next
    case (RMessage reply)
    with Inr show ?thesis
      by (simp add: handler_try_def Let_def only_sends_send_unit)
  next
    case (RValue v)
    show ?thesis
    proof (cases "v = JNull")
      case True
      with Inr RValue show ?thesis by (simp add: handler_try_def Let_def)
    next
      case False
      then have "handler_try E m i h s =
        (let s = s\<lparr>invoked := invoked s @ [(i, m)]\<rparr>;
             mirrored = (if audience m = DIRECT then sender_id m else JNull)
         in if is_dict v \<and> is_a2a_envelope v
            then client_call E (Publish (target_topic E s m) v (qos s)) s
            else and_then (send_message E v (audience m) mirrored (message_id m)) (\<lambda>_. ret ()) s)"
        using Inr RValue by (cases v) (simp_all add: handler_try_def Let_def)
      then show ?thesis
        by (cases "is_dict v \<and> is_a2a_envelope v")
           (simp_all add: Let_def only_sends_client_call only_sends_send_unit)
    qed
  qed
qed

lemma handler_step_caught:
  "handler_try E m i h s = (Inl e, s1) \<Longrightarrow>
   handler_step E m i h s
     = (Inr (), s1\<lparr>logged := logged s1 @ [LogError (''Error in message handler: '' @ exc_str e)]\<rparr>)"
  by (simp add: handler_step_def try_except_def logger_def)

lemma handler_step_returns: "fst (handler_step E m i h s) = Inr ()"
  by (cases "handler_try E m i h s")
     (auto simp: handler_step_def try_except_def logger_def split: sum.splits)

lemma handler_step_frame:
  "only_sends (s\<lparr>invoked := invoked s @ [(i, m)]\<rparr>) (snd (handler_step E m i h s))"
proof (cases "handler_try E m i h s")
  case (Pair r s1)
  with handler_try_frame [of s i m E h]
  have 1: "only_sends (s\<lparr>invoked := invoked s @ [(i, m)]\<rparr>) s1" by simp
  show ?thesis
  proof (cases r)
    case (Inl e)
    with Pair handler_step_caught [of E m i h s e s1]
    have "snd (handler_step E m i h s)
            = s1\<lparr>logged := logged s1 @ [LogError (''Error in message handler: '' @ exc_str e)]\<rparr>"
      by simp
    moreover have "only_sends s1
        (s1\<lparr>logged := logged s1 @ [LogError (''Error in message handler: '' @ exc_str e)]\<rparr>)"
      by simp
    ultimately show ?thesis
      using only_sends_trans [OF 1] by simp
  next
    case (Inr u)
    with Pair 1 show ?thesis by (simp add: handler_step_def try_except_def)
  qed
qed

lemma handler_step_raising:
  "h m = Inl e \<Longrightarrow>
   handler_step E m i h s
     = (Inr (), s\<lparr>invoked := invoked s @ [(i, m)],
                    logged := logged s @ [LogError (''Error in message handler: '' @ exc_str e)]\<rparr>)"
  by (simp add: handler_step_def handler_try_def try_except_def logger_def raise_def Let_def)

lemma run_handlers_invokes_all:
  "fst (run_handlers E m i hs s) = Inr () \<and>
   invoked (snd (run_handlers E m i hs s)) = invoked s @ map (\<lambda>k. (k, m)) [i..<i + length hs] \<and>
   prefix (logged s) (logged (snd (run_handlers E m i hs s)))"
proof (induction hs arbitrary: i s)
  case Nil
  show ?case by (simp add: ret_def)
next
  case (Cons h hs)
  obtain s1 where s1: "handler_step E m i h s = (Inr (), s1)"
    using handler_step_returns [of E m i h s] by (cases "handler_step E m i h s") auto
  with handler_step_frame [of s i m E h]
  have f: "invoked s1 = invoked s @ [(i, m)]" "prefix (logged s) (logged s1)"
    by (simp_all add: only_sends_def)
  have r: "run_handlers E m i (h # hs) s = run_handlers E m (Suc i) hs s1"
    using s1 by (simp add: and_then_def)
  have u: "[i..<i + length (h # hs)] = i # [Suc i..<Suc i + length hs]"
    by (subst upt_conv_Cons) simp_all
  from Cons.IH [of "Suc i" s1] f show ?case
    unfolding r u by (auto dest: prefix_order.trans)
qed

lemma run_handlers_logs_raising:
  "k < length hs \<Longrightarrow> (hs ! k) m = Inl e \<Longrightarrow>
   LogError (''Error in message handler: '' @ exc_str e)
     \<in> set (logged (snd (run_handlers E m i hs s)))"
proof (induction hs arbitrary: i s k)
  case Nil
  then show ?case by simp
next
  case (Cons h hs)
  obtain s1 where s1: "handler_step E m i h s = (Inr (), s1)"
    using handler_step_returns [of E m i h s] by (cases "handler_step E m i h s") auto
  have r: "run_handlers E m i (h # hs) s = run_handlers E m (Suc i) hs s1"
    using s1 by (simp add: and_then_def)
  show ?case
  proof (cases k)
    case 0
    with Cons.prems have "h m = Inl e" by simp
    with handler_step_raising [of h m e E i s] s1
    have "LogError (''Error in message handler: '' @ exc_str e) \<in> set (logged s1)"
      by auto
    moreover have "prefix (logged s1) (logged (snd (run_handlers E m (Suc i) hs s1)))"
      using run_handlers_invokes_all by blast
    ultimately show ?thesis
      unfolding r by (auto dest: set_mono_prefix)
  next
    case (Suc k')
    with Cons.prems have "k' < length hs" "(hs ! k') m = Inl e" by simp_all
    from Cons.IH [OF this] show ?thesis
      unfolding r .
  qed
qed

subsection \<open>Sending\<close>


lemma send_message_publishes:
  assumes "joined s" and "aud = EVERYONE \<or> truthy recipient"
  shows "\<exists>payload. wire (snd (send_message E body aud recipient reply_to s))
           = wire s @ [Publish (outgoing_topic E s aud recipient) payload (qos s)]"
  using assms
  by (cases "transport_raises E (length (wire s))
               (Publish (outgoing_topic E s aud recipient)
                  (JDict [(''sender_id'', JStr (agent_id s)), (''content'', body),
                          (''timestamp'', JFloat (time_time E (time_calls s))),
                          (''message_id'', JStr (uuid4 E (uuid_calls s))),
                          (''in_reply_to'', reply_to),
                          (''audience'', JStr (audience_value aud)),
                          (''recipient_id'', recipient)])
                  (qos s))")
     (auto simp: send_message_def Let_def and_then_def try_except_def draw_time_def draw_uuid_def
                 client_call_def logger_def ret_def outgoing_topic_def)

lemma send_message_refuses:
  assumes "joined s" and "\<not> truthy recipient"
  shows "send_message E body DIRECT recipient reply_to s
           = (Inl (ValueError ''Recipient ID required for direct messages''), s)"
  using assms by (simp add: send_message_def raise_def)

lemma a2a_constructed_message_ok:
  assumes "arg_message a \<noteq> None \<or> a2a_part_list a \<noteq> []"
  shows "\<exists>m s1. a2a_constructed_message E a s = (Inr m, s1) \<and> wire s1 = wire s \<and>
           qos s1 = qos s \<and> room_id s1 = room_id s"
  using assms
  by (cases "arg_message a"; cases "truthy_opt (arg_message_id a)")
     (auto simp: a2a_constructed_message_def and_then_def ret_def draw_uuid_def)

lemma create_send_message_request_ok:
  "\<exists>r s1. create_send_message_request E m request_id config md s = (Inr r, s1) \<and>
           wire s1 = wire s \<and> qos s1 = qos s \<and> room_id s1 = room_id s"
  by (cases "truthy request_id")
     (auto simp: create_send_message_request_def and_then_def ret_def draw_uuid_def)

lemma send_a2a_request_publishes:
  assumes "a2a_request_check s a = None" and "arg_message a \<noteq> None \<or> a2a_part_list a \<noteq> []"
  shows "\<exists>payload. wire (snd (send_a2a_request E a s))
           = wire s @ [Publish (outgoing_topic E s (arg_audience a) (arg_recipient_id a))
                         payload (qos s)]"
proof -
  from a2a_constructed_message_ok [OF assms(2)] obtain m s1 where
    m: "a2a_constructed_message E a s = (Inr m, s1)" and s1: "wire s1 = wire s" "qos s1 = qos s"
    by blast
  from create_send_message_request_ok obtain r s2 where
    r: "create_send_message_request E m (arg_request_id a) (arg_configuration a)
          (dict_or_none (arg_request_metadata a)) s1 = (Inr r, s2)"
    and s2: "wire s2 = wire s1"
    by blast
  let ?c = "Publish (outgoing_topic E s (arg_audience a) (arg_recipient_id a))
              (JDict (SendMessageRequest_to_dict r)) (qos s)"
  have "wire (snd (send_a2a_request E a s)) = wire s @ [?c]"
    using assms(1) m r s1 s2
    by (cases "transport_raises E (length (wire s2)) ?c")
       (simp_all add: send_a2a_request_def and_then_def Let_def client_call_def logger_def ret_def)
  then show ?thesis by blast
qed

lemma a2a_request_check_accepted:
  assumes "joined s" and "a2a_arguments_accepted a"
    and "arg_audience a = EVERYONE \<or> truthy (arg_recipient_id a)"
  shows "a2a_request_check s a = None"
  using assms
  by (auto simp: a2a_request_check_def a2a_arguments_accepted_def split: option.splits)

lemma send_a2a_request_refuses:
  assumes "joined s" and "arg_audience a = DIRECT" and "\<not> truthy (arg_recipient_id a)"
  shows "send_a2a_request E a s
           = (Inl (ValueError ''Recipient ID required for direct A2A messages''), s)"
  using assms by (simp add: send_a2a_request_def a2a_request_check_def raise_def)

subsection \<open>Round trips\<close>


lemma dict_set_fresh: "k \<notin> fst ` set d \<Longrightarrow> dict_set d k v = d @ [(k, v)]"
  by (simp add: dict_set_def map_of_eq_None_iff [THEN iffD2])

lemma dict_merge_fresh:
  "distinct (map fst e) \<Longrightarrow> fst ` set e \<inter> fst ` set d = {} \<Longrightarrow> dict_merge d e = d @ e"
proof (induction e arbitrary: d)
  case Nil
  then show ?case by (simp add: dict_merge_def)
next
  case (Cons kv e)
  obtain k v where kv: "kv = (k, v)" by (cases kv)
  from Cons.prems kv have fresh: "k \<notin> fst ` set d" by auto
  have "dict_merge d (kv # e) = dict_merge (dict_set d k v) e"
    by (simp add: dict_merge_def kv)
  also have "\<dots> = dict_merge (d @ [(k, v)]) e"
    by (simp add: dict_set_fresh [OF fresh])
  also have "\<dots> = (d @ [(k, v)]) @ e"
    using Cons.prems kv by (intro Cons.IH) auto
  finally show ?case by (simp add: kv)
qed

lemma part_round_trip:
  assumes "plain_part p"
  shows "A2APart_from_dict (JDict (A2APart_to_dict p)) = Inr p"
proof -
  from assms have m: "dict_merge [(''kind'', JStr (part_kind p))] (part_data p)
                      = (''kind'', JStr (part_kind p)) # part_data p"
    by (subst dict_merge_fresh) (auto simp: plain_part_def)
  from assms have none: "map_of (part_data p) ''kind'' = None"
    "map_of (part_data p) ''metadata'' = None"
    by (auto simp: plain_part_def map_of_eq_None_iff)
  from assms have f: "filter (\<lambda>(key, x). key \<notin> {''kind'', ''metadata''}) (part_data p) = part_data p"
    by (intro filter_True) (force simp: plain_part_def)
  show ?thesis
  proof (cases "part_metadata p")
    case None
    with m none f show ?thesis
      by (simp add: A2APart_to_dict_def A2APart_from_dict_def py_get_def)
  next
    case (Some md)
    with assms have "md \<noteq> []" by (simp add: plain_part_def)
    moreover from assms have "''metadata'' \<notin> fst ` set ((''kind'', JStr (part_kind p)) # part_data p)"
      by (simp add: plain_part_def)
    ultimately show ?thesis
      using Some m none f
      by (simp add: A2APart_to_dict_def A2APart_from_dict_def py_get_def dict_set_fresh
                    map_add_def [symmetric] map_of_append del: map_of_append)
         (simp add: map_of_append map_add_def)
  qed
qed

lemma parts_round_trip:
  "list_all plain_part ps \<Longrightarrow> parts_from_list (map (\<lambda>p. JDict (A2APart_to_dict p)) ps) = Inr ps"
  by (induction ps) (simp_all add: part_round_trip)

lemma dict_set_opt:
  "fst ` set d \<subseteq> K \<Longrightarrow> k \<notin> K \<Longrightarrow>
   (if c then dict_set d k v else d) = d @ (if c then [(k, v)] else [])"
proof -
  assume "fst ` set d \<subseteq> K" and "k \<notin> K"
  then have "k \<notin> fst ` set d" by blast
  then show ?thesis by (simp add: dict_set_fresh)
qed

lemma keys_append_opt:
  "fst ` set d \<subseteq> K \<Longrightarrow> fst ` set (d @ (if c then [(k, v)] else [])) \<subseteq> insert k K"
  by auto

lemma message_to_dict_append:
  "A2AMessage_to_dict m =
     [(''role'', JStr (msg_role m)),
      (''parts'', JList (map (\<lambda>p. JDict (A2APart_to_dict p)) (msg_parts m))),
      (''messageId'', JStr (msg_message_id m)),
      (''kind'', msg_kind m)]
     @ (if truthy_opt (msg_metadata m) then [(''metadata'', JDict (the (msg_metadata m)))] else [])
     @ (if truthy_opt (msg_extensions m) then [(''extensions'', JList (the (msg_extensions m)))] else [])
     @ (if truthy_opt (msg_reference_task_ids m)
        then [(''referenceTaskIds'', JList (the (msg_reference_task_ids m)))] else [])
     @ (if truthy_opt (msg_task_id m) then [(''taskId'', JStr (the (msg_task_id m)))] else [])
     @ (if truthy_opt (msg_context_id m) then [(''contextId'', JStr (the (msg_context_id m)))] else [])"
proof -
  let ?p0 = "[(''role'', JStr (msg_role m)),
      (''parts'', JList (map (\<lambda>p. JDict (A2APart_to_dict p)) (msg_parts m))),
      (''messageId'', JStr (msg_message_id m)),
      (''kind'', msg_kind m)]"
  let ?o1 = "if truthy_opt (msg_metadata m) then [(''metadata'', JDict (the (msg_metadata m)))] else []"
  let ?o2 = "if truthy_opt (msg_extensions m) then [(''extensions'', JList (the (msg_extensions m)))] else []"
  let ?o3 = "if truthy_opt (msg_reference_task_ids m)
        then [(''referenceTaskIds'', JList (the (msg_reference_task_ids m)))] else []"
  let ?o4 = "if truthy_opt (msg_task_id m) then [(''taskId'', JStr (the (msg_task_id m)))] else []"
  let ?o5 = "if truthy_opt (msg_context_id m) then [(''contextId'', JStr (the (msg_context_id m)))] else []"
  let ?K0 = "{''role'', ''parts'', ''messageId'', ''kind''}"
  have k0: "fst ` set ?p0 \<subseteq> ?K0" by simp
  note k1 = keys_append_opt [OF k0, of "truthy_opt (msg_metadata m)" "''metadata''"
              "JDict (the (msg_metadata m))"]
  note k2 = keys_append_opt [OF k1, of "truthy_opt (msg_extensions m)" "''extensions''"
              "JList (the (msg_extensions m))"]
  note k3 = keys_append_opt [OF k2, of "truthy_opt (msg_reference_task_ids m)" "''referenceTaskIds''"
              "JList (the (msg_reference_task_ids m))"]
  note k4 = keys_append_opt [OF k3, of "truthy_opt (msg_task_id m)" "''taskId''"
              "JStr (the (msg_task_id m))"]
  have p1: "(if truthy_opt (msg_metadata m)
             then dict_set ?p0 ''metadata'' (JDict (the (msg_metadata m))) else ?p0) = ?p0 @ ?o1"
    by (rule dict_set_opt [OF k0]) simp
  have p2: "(if truthy_opt (msg_extensions m)
             then dict_set (?p0 @ ?o1) ''extensions'' (JList (the (msg_extensions m)))
             else ?p0 @ ?o1) = (?p0 @ ?o1) @ ?o2"
    by (rule dict_set_opt [OF k1]) simp
  have p3: "(if truthy_opt (msg_reference_task_ids m)
             then dict_set ((?p0 @ ?o1) @ ?o2) ''referenceTaskIds''
                    (JList (the (msg_reference_task_ids m)))
             else (?p0 @ ?o1) @ ?o2) = ((?p0 @ ?o1) @ ?o2) @ ?o3"
    by (rule dict_set_opt [OF k2]) simp
  have p4: "(if truthy_opt (msg_task_id m)
             then dict_set (((?p0 @ ?o1) @ ?o2) @ ?o3) ''taskId'' (JStr (the (msg_task_id m)))
             else ((?p0 @ ?o1) @ ?o2) @ ?o3) = (((?p0 @ ?o1) @ ?o2) @ ?o3) @ ?o4"
    by (rule dict_set_opt [OF k3]) simp
  have p5: "(if truthy_opt (msg_context_id m)
             then dict_set ((((?p0 @ ?o1) @ ?o2) @ ?o3) @ ?o4) ''contextId''
                    (JStr (the (msg_context_id m)))
             else (((?p0 @ ?o1) @ ?o2) @ ?o3) @ ?o4) = ((((?p0 @ ?o1) @ ?o2) @ ?o3) @ ?o4) @ ?o5"
    by (rule dict_set_opt [OF k4]) simp
  show ?thesis
    unfolding A2AMessage_to_dict_def Let_def p1 p2 p3 p4 p5
    by (simp only: append_assoc)
qed


lemma py_or_str: "s \<noteq> [] \<Longrightarrow> py_or (JStr s) x = JStr s"
  by (simp add: py_or_def)

lemma message_round_trip:
  assumes "plain_message m"
  shows "A2AMessage_from_dict (JDict (A2AMessage_to_dict m)) = Inr m"
proof -
  from assms have parts: "parts_from_list (map (\<lambda>p. JDict (A2APart_to_dict p)) (msg_parts m))
                            = Inr (msg_parts m)"
    by (intro parts_round_trip) (simp add: plain_message_def)
  from assms obtain p ps where ps: "msg_parts m = p # ps"
    by (cases "msg_parts m") (auto simp: plain_message_def)
  have k: "py_get (A2AMessage_to_dict m) ''role'' = JStr (msg_role m)"
    "py_get (A2AMessage_to_dict m) ''parts''
       = JList (map (\<lambda>p. JDict (A2APart_to_dict p)) (msg_parts m))"
    "py_get (A2AMessage_to_dict m) ''messageId'' = JStr (msg_message_id m)"
    "py_get_default (A2AMessage_to_dict m) ''kind'' (JStr ''message'') = msg_kind m"
    by (simp_all add: message_to_dict_append py_get_def py_get_default_def)
  have md: "dict_or_none (py_get (A2AMessage_to_dict m) ''metadata'') = msg_metadata m"
    using assms by (cases "msg_metadata m") (simp_all add: message_to_dict_append py_get_def plain_message_def)
  have ex: "nonempty_or_none (list_or_none (py_get (A2AMessage_to_dict m) ''extensions''))
              = msg_extensions m"
    using assms by (cases "msg_extensions m")
      (simp_all add: message_to_dict_append py_get_def plain_message_def nonempty_or_none_def)
  have rf: "nonempty_or_none (list_or_none (py_get (A2AMessage_to_dict m) ''referenceTaskIds''))
              = msg_reference_task_ids m"
    using assms by (cases "msg_reference_task_ids m")
      (simp_all add: message_to_dict_append py_get_def plain_message_def nonempty_or_none_def)
  have tk: "str_or_none (py_or (py_get (A2AMessage_to_dict m) ''taskId'')
                               (py_get (A2AMessage_to_dict m) ''task_id'')) = msg_task_id m"
    using assms by (cases "msg_task_id m")
      (simp_all add: message_to_dict_append py_get_def py_or_def plain_message_def)
  have cx: "str_or_none (py_or (py_get (A2AMessage_to_dict m) ''contextId'')
                               (py_get (A2AMessage_to_dict m) ''context_id'')) = msg_context_id m"
    using assms by (cases "msg_context_id m")
      (simp_all add: message_to_dict_append py_get_def py_or_def plain_message_def)
  from assms have mid: "py_or (JStr (msg_message_id m)) (py_get (A2AMessage_to_dict m) ''message_id'')
                          = JStr (msg_message_id m)"
    by (intro py_or_str) (simp add: plain_message_def)
  have pl: "map (\<lambda>p. JDict (A2APart_to_dict p)) (msg_parts m)
              = JDict (A2APart_to_dict p) # map (\<lambda>p. JDict (A2APart_to_dict p)) ps"
    by (simp add: ps)
  from parts have parts': "parts_from_list
      (JDict (A2APart_to_dict p) # map (\<lambda>p. JDict (A2APart_to_dict p)) ps) = Inr (msg_parts m)"
    by (simp only: pl)
  from assms have role: "msg_role m = ''user'' \<or> msg_role m = ''agent''"
    by (simp add: plain_message_def)
  have "A2AMessage_from_dict (JDict (A2AMessage_to_dict m))
          = Inr \<lparr> msg_role = msg_role m, msg_parts = msg_parts m,
                  msg_message_id = msg_message_id m, msg_kind = msg_kind m,
                  msg_metadata = msg_metadata m, msg_extensions = msg_extensions m,
                  msg_reference_task_ids = msg_reference_task_ids m,
                  msg_task_id = msg_task_id m, msg_context_id = msg_context_id m \<rparr>"
    unfolding A2AMessage_from_dict_def
    using role
    by (simp only: json.case Let_def k md ex rf tk cx mid)
       (auto simp: pl parts' simp del: parts_from_list.simps)
  then show ?thesis by simp
qed

lemma case_option_if:
  "(case x of Some y \<Rightarrow> f y | None \<Rightarrow> d) = (if x \<noteq> None then f (the x) else d)"
  by (cases x) auto

lemma configuration_to_dict_append:
  "MessageSendConfiguration_to_dict c =
     (if truthy_opt (cfg_accepted_output_modes c)
      then [(''acceptedOutputModes'', JList (the (cfg_accepted_output_modes c)))] else [])
     @ (if cfg_history_length c \<noteq> JNull then [(''historyLength'', cfg_history_length c)] else [])
     @ (if truthy_opt (cfg_push_notification_config c)
        then [(''pushNotificationConfig'', JDict (the (cfg_push_notification_config c)))] else [])
     @ (if cfg_blocking c \<noteq> JNull then [(''blocking'', cfg_blocking c)] else [])"
proof -
  let ?o1 = "if truthy_opt (cfg_accepted_output_modes c)
      then [(''acceptedOutputModes'', JList (the (cfg_accepted_output_modes c)))] else []"
  let ?o2 = "if cfg_history_length c \<noteq> JNull then [(''historyLength'', cfg_history_length c)] else []"
  let ?o3 = "if truthy_opt (cfg_push_notification_config c)
        then [(''pushNotificationConfig'', JDict (the (cfg_push_notification_config c)))] else []"
  let ?o4 = "if cfg_blocking c \<noteq> JNull then [(''blocking'', cfg_blocking c)] else []"
  have k0: "fst ` set ([] :: pydict) \<subseteq> {}" by simp
  note k1 = keys_append_opt [OF k0, of "truthy_opt (cfg_accepted_output_modes c)"
              "''acceptedOutputModes''" "JList (the (cfg_accepted_output_modes c))"]
  note k2 = keys_append_opt [OF k1, of "cfg_history_length c \<noteq> JNull" "''historyLength''"
              "cfg_history_length c"]
  note k3 = keys_append_opt [OF k2, of "truthy_opt (cfg_push_notification_config c)"
              "''pushNotificationConfig''" "JDict (the (cfg_push_notification_config c))"]
  have p1: "(if truthy_opt (cfg_accepted_output_modes c)
             then dict_set [] ''acceptedOutputModes'' (JList (the (cfg_accepted_output_modes c)))
             else []) = [] @ ?o1"
    by (rule dict_set_opt [OF k0]) simp
  have p2: "(if cfg_history_length c \<noteq> JNull
             then dict_set ([] @ ?o1) ''historyLength'' (cfg_history_length c)
             else [] @ ?o1) = ([] @ ?o1) @ ?o2"
    by (rule dict_set_opt [OF k1]) simp
  have p3: "(if truthy_opt (cfg_push_notification_config c)
             then dict_set (([] @ ?o1) @ ?o2) ''pushNotificationConfig''
                    (JDict (the (cfg_push_notification_config c)))
             else ([] @ ?o1) @ ?o2) = (([] @ ?o1) @ ?o2) @ ?o3"
    by (rule dict_set_opt [OF k2]) simp
  have p4: "(if cfg_blocking c \<noteq> JNull
             then dict_set ((([] @ ?o1) @ ?o2) @ ?o3) ''blocking'' (cfg_blocking c)
             else (([] @ ?o1) @ ?o2) @ ?o3) = ((([] @ ?o1) @ ?o2) @ ?o3) @ ?o4"
    by (rule dict_set_opt [OF k3]) simp
  show ?thesis
    unfolding MessageSendConfiguration_to_dict_def Let_def p1 p2 p3 p4
    by (simp only: append_assoc append_Nil)
qed

lemma configuration_round_trip:
  assumes "plain_configuration c"
  shows "MessageSendConfiguration_from_dict (JDict (MessageSendConfiguration_to_dict c)) = Inr c"
proof -
  let ?d = "MessageSendConfiguration_to_dict c"
  have ac: "list_or_none (py_get ?d ''acceptedOutputModes'') = cfg_accepted_output_modes c"
    using assms by (cases "cfg_accepted_output_modes c")
      (simp_all add: configuration_to_dict_append py_get_def plain_configuration_def)
  have hl: "py_get ?d ''historyLength'' = cfg_history_length c"
    by (simp add: configuration_to_dict_append py_get_def)
  have pn: "dict_or_none (py_get ?d ''pushNotificationConfig'') = cfg_push_notification_config c"
    using assms by (cases "cfg_push_notification_config c")
      (simp_all add: configuration_to_dict_append py_get_def plain_configuration_def)
  have bl: "py_get ?d ''blocking'' = cfg_blocking c"
    by (simp add: configuration_to_dict_append py_get_def)
  from assms have ok: "\<not> (cfg_history_length c \<noteq> JNull \<and> \<not> is_int (cfg_history_length c))"
    "\<not> (cfg_blocking c \<noteq> JNull \<and> \<not> is_bool (cfg_blocking c))"
    by (auto simp: plain_configuration_def)
  have "MessageSendConfiguration_from_dict (JDict ?d)
          = Inr \<lparr> cfg_accepted_output_modes = cfg_accepted_output_modes c,
                  cfg_history_length = cfg_history_length c,
                  cfg_push_notification_config = cfg_push_notification_config c,
                  cfg_blocking = cfg_blocking c \<rparr>"
    unfolding MessageSendConfiguration_from_dict_def
    by (simp only: json.case Let_def ac hl pn bl ok if_False)
  then show ?thesis by simp
qed

lemma params_to_dict_append:
  "MessageSendParams_to_dict p =
     [(''message'', JDict (A2AMessage_to_dict (prm_message p)))]
     @ (if prm_configuration p \<noteq> None
        then [(''configuration'', JDict (MessageSendConfiguration_to_dict (the (prm_configuration p))))]
        else [])
     @ (if truthy_opt (prm_metadata p) then [(''metadata'', JDict (the (prm_metadata p)))] else [])"
proof -
  let ?p0 = "[(''message'', JDict (A2AMessage_to_dict (prm_message p)))]"
  let ?o1 = "if prm_configuration p \<noteq> None
        then [(''configuration'', JDict (MessageSendConfiguration_to_dict (the (prm_configuration p))))]
        else []"
  let ?o2 = "if truthy_opt (prm_metadata p) then [(''metadata'', JDict (the (prm_metadata p)))] else []"
  have k0: "fst ` set ?p0 \<subseteq> {''message''}" by simp
  note k1 = keys_append_opt [OF k0, of "prm_configuration p \<noteq> None" "''configuration''"
              "JDict (MessageSendConfiguration_to_dict (the (prm_configuration p)))"]
  have p1: "(if prm_configuration p \<noteq> None
             then dict_set ?p0 ''configuration''
                    (JDict (MessageSendConfiguration_to_dict (the (prm_configuration p))))
             else ?p0) = ?p0 @ ?o1"
    by (rule dict_set_opt [OF k0]) simp
  have p2: "(if truthy_opt (prm_metadata p)
             then dict_set (?p0 @ ?o1) ''metadata'' (JDict (the (prm_metadata p)))
             else ?p0 @ ?o1) = (?p0 @ ?o1) @ ?o2"
    by (rule dict_set_opt [OF k1]) simp
  show ?thesis
    unfolding MessageSendParams_to_dict_def Let_def case_option_if p1 p2
    by (simp only: append_assoc)
qed

lemma params_round_trip:
  assumes "plain_params p"
  shows "MessageSendParams_from_dict (JDict (MessageSendParams_to_dict p)) = Inr p"
proof -
  let ?d = "MessageSendParams_to_dict p"
  have msg: "py_get ?d ''message'' = JDict (A2AMessage_to_dict (prm_message p))"
    by (simp add: params_to_dict_append py_get_def)
  from assms have m: "A2AMessage_from_dict (JDict (A2AMessage_to_dict (prm_message p)))
                        = Inr (prm_message p)"
    by (intro message_round_trip) (simp add: plain_params_def)
  have md: "dict_or_none (py_get ?d ''metadata'') = prm_metadata p"
    using assms by (cases "prm_metadata p")
      (simp_all add: params_to_dict_append py_get_def plain_params_def)
  show ?thesis
  proof (cases "prm_configuration p")
    case None
    then have "py_get ?d ''configuration'' = JNull"
      by (simp add: params_to_dict_append py_get_def)
    then have "MessageSendParams_from_dict (JDict ?d)
                 = Inr \<lparr> prm_message = prm_message p, prm_configuration = None,
                         prm_metadata = prm_metadata p \<rparr>"
      unfolding MessageSendParams_from_dict_def
      by (simp only: json.case msg m md sum.case)
    with None show ?thesis by simp
  next
    case (Some c)
    then have cd: "py_get ?d ''configuration'' = JDict (MessageSendConfiguration_to_dict c)"
      by (simp add: params_to_dict_append py_get_def)
    from assms Some have
      "MessageSendConfiguration_from_dict (JDict (MessageSendConfiguration_to_dict c)) = Inr c"
      by (intro configuration_round_trip) (simp add: plain_params_def)
    then have "MessageSendParams_from_dict (JDict ?d)
                 = Inr \<lparr> prm_message = prm_message p, prm_configuration = Some c,
                         prm_metadata = prm_metadata p \<rparr>"
      unfolding MessageSendParams_from_dict_def
      by (simp only: json.case msg m md cd sum.case)
    with Some show ?thesis by simp
  qed
qed

lemma envelope_to_dict_append:
  "A2AEnvelope_to_dict e =
     [(''jsonrpc'', JStr (env_jsonrpc e))]
     @ (if env_id e \<noteq> JNull then [(''id'', env_id e)] else [])
     @ (if truthy (env_method e) then [(''method'', env_method e)] else [])
     @ (if env_params e \<noteq> None
        then [(''params'', JDict (MessageSendParams_to_dict (the (env_params e))))] else [])
     @ (if env_result e \<noteq> JNull then [(''result'', env_result e)] else [])
     @ (if env_error e \<noteq> None then [(''error'', JDict (the (env_error e)))] else [])"
proof -
  let ?p0 = "[(''jsonrpc'', JStr (env_jsonrpc e))]"
  let ?o1 = "if env_id e \<noteq> JNull then [(''id'', env_id e)] else []"
  let ?o2 = "if truthy (env_method e) then [(''method'', env_method e)] else []"
  let ?o3 = "if env_params e \<noteq> None
        then [(''params'', JDict (MessageSendParams_to_dict (the (env_params e))))] else []"
  let ?o4 = "if env_result e \<noteq> JNull then [(''result'', env_result e)] else []"
  let ?o5 = "if env_error e \<noteq> None then [(''error'', JDict (the (env_error e)))] else []"
  have k0: "fst ` set ?p0 \<subseteq> {''jsonrpc''}" by simp
  note k1 = keys_append_opt [OF k0, of "env_id e \<noteq> JNull" "''id''" "env_id e"]
  note k2 = keys_append_opt [OF k1, of "truthy (env_method e)" "''method''" "env_method e"]
  note k3 = keys_append_opt [OF k2, of "env_params e \<noteq> None" "''params''"
              "JDict (MessageSendParams_to_dict (the (env_params e)))"]
  note k4 = keys_append_opt [OF k3, of "env_result e \<noteq> JNull" "''result''" "env_result e"]
  have p1: "(if env_id e \<noteq> JNull then dict_set ?p0 ''id'' (env_id e) else ?p0) = ?p0 @ ?o1"
    by (rule dict_set_opt [OF k0]) simp
  have p2: "(if truthy (env_method e) then dict_set (?p0 @ ?o1) ''method'' (env_method e)
             else ?p0 @ ?o1) = (?p0 @ ?o1) @ ?o2"
    by (rule dict_set_opt [OF k1]) simp
  have p3: "(if env_params e \<noteq> None
             then dict_set ((?p0 @ ?o1) @ ?o2) ''params''
                    (JDict (MessageSendParams_to_dict (the (env_params e))))
             else (?p0 @ ?o1) @ ?o2) = ((?p0 @ ?o1) @ ?o2) @ ?o3"
    by (rule dict_set_opt [OF k2]) simp
  have p4: "(if env_result e \<noteq> JNull
             then dict_set (((?p0 @ ?o1) @ ?o2) @ ?o3) ''result'' (env_result e)
             else ((?p0 @ ?o1) @ ?o2) @ ?o3) = (((?p0 @ ?o1) @ ?o2) @ ?o3) @ ?o4"
    by (rule dict_set_opt [OF k3]) simp
  have p5: "(if env_error e \<noteq> None
             then dict_set ((((?p0 @ ?o1) @ ?o2) @ ?o3) @ ?o4) ''error'' (JDict (the (env_error e)))
             else (((?p0 @ ?o1) @ ?o2) @ ?o3) @ ?o4) = ((((?p0 @ ?o1) @ ?o2) @ ?o3) @ ?o4) @ ?o5"
    by (rule dict_set_opt [OF k4]) simp
  show ?thesis
    unfolding A2AEnvelope_to_dict_def Let_def case_option_if p1 p2 p3 p4 p5
    by (simp only: append_assoc)
qed

lemma envelope_round_trip:
  assumes "plain_envelope e"
  shows "A2AEnvelope_from_dict (JDict (A2AEnvelope_to_dict e))
           = Inr (e\<lparr>env_raw := A2AEnvelope_to_dict e\<rparr>)"
proof -
  let ?d = "A2AEnvelope_to_dict e"
  from assms have v: "env_jsonrpc e = JSONRPC_VERSION"
    by (simp add: plain_envelope_def)
  have j: "py_get ?d ''jsonrpc'' = JStr JSONRPC_VERSION"
    by (simp add: envelope_to_dict_append py_get_def v)
  have i: "py_get ?d ''id'' = env_id e"
    by (simp add: envelope_to_dict_append py_get_def)
  have me: "py_get ?d ''method'' = env_method e"
    using assms by (auto simp: envelope_to_dict_append py_get_def plain_envelope_def)
  have r: "py_get ?d ''result'' = env_result e"
    by (simp add: envelope_to_dict_append py_get_def)
  have er: "dict_or_none (py_get ?d ''error'') = env_error e"
    by (cases "env_error e") (simp_all add: envelope_to_dict_append py_get_def)
  have pa: "(case py_get ?d ''params'' of
               JDict pd \<Rightarrow>
                 (case MessageSendParams_from_dict (JDict pd) of Inr p \<Rightarrow> Some p | Inl e \<Rightarrow> None)
             | _ \<Rightarrow> None) = env_params e"
  proof (cases "env_params e")
    case None
    then show ?thesis by (simp add: envelope_to_dict_append py_get_def)
  next
    case (Some p)
    with assms have "MessageSendParams_from_dict (JDict (MessageSendParams_to_dict p)) = Inr p"
      by (intro params_round_trip) (simp add: plain_envelope_def)
    with Some show ?thesis by (simp add: envelope_to_dict_append py_get_def)
  qed
  have "A2AEnvelope_from_dict (JDict ?d)
          = Inr \<lparr> env_jsonrpc = JSONRPC_VERSION, env_id = env_id e, env_method = env_method e,
                  env_params = env_params e, env_result = env_result e,
                  env_error = env_error e, env_raw = ?d \<rparr>"
    unfolding A2AEnvelope_from_dict_def
    by (simp only: json.case j i me r er pa) simp
  with v show ?thesis by simp
qed

subsection \<open>The callback returns\<close>

lemma legacy_branch_returns:
  "\<exists>built s1. legacy_branch E d aud recipient stamp s = (Inr built, s1)"
  by (cases "map_of d ''sender_id''"; cases "map_of d ''content''";
      cases "truthy (py_or (py_get d ''message_id'') (py_get d ''messageId''))")
     (auto simp: legacy_branch_def legacy_try_def try_except_def and_then_def ret_def raise_def
                 py_item_def logger_def draw_uuid_def Let_def)

lemma normalize_payload_returns:
  "\<exists>built s1. normalize_payload E topic payload s = (Inr built, s1)"
proof (cases "is_dict payload")
  case False
  then show ?thesis
    by (simp add: normalize_payload_non_dict)
next
  case True
  then obtain d where "payload = JDict d"
    by (cases payload) auto
  then show ?thesis
    using legacy_branch_returns
    by (cases "embedded_message (JDict d)") (simp_all add: normalize_payload_dict Let_def)
qed

lemma dispatch_returns: "fst (dispatch E m s) = Inr ()"
  using run_handlers_invokes_all [of E m 0]
  by (simp add: dispatch_def and_then_def logger_def)

lemma handle_message_returns: "fst (handle_message E topic payload s) = Inr ()"
proof -
  from normalize_payload_returns obtain built s1 where
    n: "normalize_payload E topic payload s = (Inr built, s1)"
    by blast
  show ?thesis
    by (cases built) (simp_all add: handle_message_def and_then_def n ret_def dispatch_returns)
qed

lemma handle_message_accepted:
  "normalize_payload E topic payload s = (Inr (Some m), s1) \<Longrightarrow>
   handle_message E topic payload s = dispatch E m s1"
  by (simp add: handle_message_def and_then_def)


section \<open>A handler that answers with an A2A message\<close>

text \<open>
  C1. The specification's second scenario on the code. The joined node "agent" of room
  "room" has one handler, which answers with the A2A message "Pong". It receives on its
  direct topic the request with id "req-234" whose message has the text "Ping" and the
  metadata sender_id "peer". The node makes exactly one publish, to
  \<open>rooms/room/direct/peer\<close>, but what it publishes is a new \<open>message/send\<close> request: its id
  is a freshly drawn identifier, not "req-234", and it has the keys \<open>method\<close> and
  \<open>params\<close> and no key \<open>result\<close>. The same node before it has joined publishes nothing.
\<close>

theorem a2a_reply_sent_as_request:
  "wire (snd (handle_message E ''rooms/room/direct/agent''
      (request_payload (text_message ''Ping'' ''user'' ''m-1'' (Some [(''sender_id'', JStr ''peer'')]))
         ''req-234'')
      pong_node))
     = [Publish ''rooms/room/direct/peer''
          (JDict [(''jsonrpc'', JStr ''2.0''),
                  (''id'', JStr (uuid4 E 0)),
                  (''method'', JStr ''message/send''),
                  (''params'', JDict [(''message'', JDict
                     [(''role'', JStr ''agent''),
                      (''parts'', JList [JDict [(''kind'', JStr ''text''), (''text'', JStr ''Pong'')]]),
                      (''messageId'', JStr ''m-2''),
                      (''kind'', JStr ''message'')])])])
          1] \<and>
   wire (snd (handle_message E ''rooms/room/direct/agent''
      (request_payload (text_message ''Ping'' ''user'' ''m-1'' (Some [(''sender_id'', JStr ''peer'')]))
         ''req-234'')
      (pong_node\<lparr>joined := False\<rparr>))) = []"
  by (simp add: py_or_def py_get_def py_get_default_def py_item_def dict_set_def
                dict_merge_def py_isspace_def py_strip_def JSONRPC_VERSION_def
                A2APart_to_dict_def A2APart_from_dict_def A2APart_text_def
                create_text_part_def A2AMessage_to_dict_def nonempty_or_none_def
                A2AMessage_from_dict_def primary_text_def sender_keys_def
                derive_sender_id_from_message_def MessageSendConfiguration_to_dict_def
                MessageSendConfiguration_from_dict_def MessageSendParams_to_dict_def
                MessageSendParams_from_dict_def SendMessageRequest_to_dict_def
                A2AEnvelope_message_def A2AEnvelope_from_dict_def is_a2a_envelope_def
                parse_a2a_envelope_def py_str_def Audience_of_def group_topic_def
                direct_topic_to_def ret_def raise_def and_then_def try_except_def logger_def
                client_call_def draw_uuid_def draw_time_def add_message_handler_def
                outgoing_topic_def send_message_def create_send_message_request_def
                default_args_def a2a_request_check_def a2a_part_list_def
                a2a_update_message_def a2a_constructed_message_def send_a2a_request_def
                is_direct_topic_def detect_audience_def detect_recipient_def reply_keys_def
                a2a_branch_def legacy_try_def legacy_branch_def normalize_payload_def
                target_topic_def handler_try_def handler_step_def dispatch_def
                handle_message_def example_node_def text_message_def request_payload_def
                pong_handler_def pong_node_def
                Let_def
           split: option.splits)

text \<open>With the quiet environment the identifier drawn is "uuid-": the payload's id is not
  "req-234" and the payload has no result.\<close>

theorem a2a_reply_sent_as_request_witness:
  "map (\<lambda>c. case c of
              Publish topic (JDict d) level \<Rightarrow> (topic, py_get d ''id'', py_get d ''method'', py_get d ''result'')
            | _ \<Rightarrow> ([], JNull, JNull, JNull))
     (wire (snd (handle_message quiet_environment ''rooms/room/direct/agent''
        (request_payload (text_message ''Ping'' ''user'' ''m-1'' (Some [(''sender_id'', JStr ''peer'')]))
           ''req-234'')
        pong_node)))
     = [(''rooms/room/direct/peer'', JStr ''uuid-'', JStr ''message/send'', JNull)]"
  using a2a_reply_sent_as_request [of quiet_environment]
  by (simp add: py_get_def quiet_environment_def)


section \<open>Round trips through the tree\<close>

text \<open>
  C2 (as amended). \<open>from_dict (to_dict x)\<close> succeeds and gives back \<open>x\<close>, field for field
  and with every sequence in its order, for every part whose data has no key "kind" or
  "metadata" and whose metadata is absent or not empty; for every message whose role is
  "user" or "agent", whose parts are such parts and at least one, whose message
  identifier is not empty and whose optional fields are each absent or not empty; and,
  in every field but \<open>raw\<close>, for every envelope of version "2.0" whose method is absent
  or not empty and whose parameters, when present, hold such a message, a configuration
  with well-typed fields and no empty optional collection, and metadata absent or not
  empty. The \<open>raw\<close> field of the envelope read back is the tree it was read from.
\<close>

theorem round_trip:
  "(plain_part p \<longrightarrow> A2APart_from_dict (JDict (A2APart_to_dict p)) = Inr p) \<and>
   (plain_message m \<longrightarrow> A2AMessage_from_dict (JDict (A2AMessage_to_dict m)) = Inr m) \<and>
   (plain_envelope e \<longrightarrow>
      A2AEnvelope_from_dict (JDict (A2AEnvelope_to_dict e))
        = Inr (e\<lparr>env_raw := A2AEnvelope_to_dict e\<rparr>))"
  using part_round_trip [of p] message_round_trip [of m] envelope_round_trip [of e]
  by blast

text \<open>A part with metadata, a message with two parts and every optional field set, and a
  request envelope holding a text message.\<close>

theorem round_trip_witness:
  "A2APart_from_dict (JDict (A2APart_to_dict
      \<lparr> part_kind = ''text'', part_data = [(''text'', JStr ''Hello'')],
        part_metadata = Some [(''lang'', JStr ''en'')] \<rparr>))
     = Inr \<lparr> part_kind = ''text'', part_data = [(''text'', JStr ''Hello'')],
             part_metadata = Some [(''lang'', JStr ''en'')] \<rparr> \<and>
   A2AMessage_from_dict (JDict (A2AMessage_to_dict
      \<lparr> msg_role = ''user'',
        msg_parts = [create_text_part ''Hello'' None,
                     \<lparr> part_kind = ''data'', part_data = [(''data'', JInt 7)],
                       part_metadata = None \<rparr>],
        msg_message_id = ''m-1'', msg_kind = JStr ''message'',
        msg_metadata = Some [(''sender_id'', JStr ''tester'')],
        msg_extensions = Some [JStr ''ext-b'', JStr ''ext-a''],
        msg_reference_task_ids = Some [JStr ''task-1''],
        msg_task_id = Some ''task-1'', msg_context_id = Some ''ctx-1'' \<rparr>))
     = Inr \<lparr> msg_role = ''user'',
        msg_parts = [create_text_part ''Hello'' None,
                     \<lparr> part_kind = ''data'', part_data = [(''data'', JInt 7)],
                       part_metadata = None \<rparr>],
        msg_message_id = ''m-1'', msg_kind = JStr ''message'',
        msg_metadata = Some [(''sender_id'', JStr ''tester'')],
        msg_extensions = Some [JStr ''ext-b'', JStr ''ext-a''],
        msg_reference_task_ids = Some [JStr ''task-1''],
        msg_task_id = Some ''task-1'', msg_context_id = Some ''ctx-1'' \<rparr> \<and>
   A2AEnvelope_from_dict (JDict (A2AEnvelope_to_dict
      (bare_envelope
        \<lparr> env_method := JStr ''message/send'',
          env_params := Some \<lparr> prm_message = text_message ''Ping'' ''user'' ''m-1'' None,
                               prm_configuration = None, prm_metadata = None \<rparr> \<rparr>)))
     = Inr (bare_envelope
        \<lparr> env_method := JStr ''message/send'',
          env_params := Some \<lparr> prm_message = text_message ''Ping'' ''user'' ''m-1'' None,
                               prm_configuration = None, prm_metadata = None \<rparr>,
          env_raw := A2AEnvelope_to_dict
            (bare_envelope
              \<lparr> env_method := JStr ''message/send'',
                env_params := Some \<lparr> prm_message = text_message ''Ping'' ''user'' ''m-1'' None,
                                     prm_configuration = None, prm_metadata = None \<rparr> \<rparr>) \<rparr>)"
proof -
  let ?p = "\<lparr> part_kind = ''text'', part_data = [(''text'', JStr ''Hello'')],
              part_metadata = Some [(''lang'', JStr ''en'')] \<rparr>"
  let ?m = "\<lparr> msg_role = ''user'',
        msg_parts = [create_text_part ''Hello'' None,
                     \<lparr> part_kind = ''data'', part_data = [(''data'', JInt 7)],
                       part_metadata = None \<rparr>],
        msg_message_id = ''m-1'', msg_kind = JStr ''message'',
        msg_metadata = Some [(''sender_id'', JStr ''tester'')],
        msg_extensions = Some [JStr ''ext-b'', JStr ''ext-a''],
        msg_reference_task_ids = Some [JStr ''task-1''],
        msg_task_id = Some ''task-1'', msg_context_id = Some ''ctx-1'' \<rparr>"
  let ?e = "bare_envelope
        \<lparr> env_method := JStr ''message/send'',
          env_params := Some \<lparr> prm_message = text_message ''Ping'' ''user'' ''m-1'' None,
                               prm_configuration = None, prm_metadata = None \<rparr> \<rparr>"
  have "plain_part ?p"
    by (simp add: plain_part_def)
  moreover have "plain_message ?m"
    by (simp add: plain_message_def plain_part_def create_text_part_def)
  moreover have "plain_envelope ?e"
    by (simp add: plain_envelope_def plain_params_def plain_message_def plain_part_def
                  bare_envelope_def text_message_def create_text_part_def JSONRPC_VERSION_def)
  ultimately show ?thesis
    using round_trip [of ?p ?m ?e] by blast
qed

text \<open>Values the constructors accept and the round trip does not reproduce: a part whose
  metadata is the empty dictionary comes back with metadata None; a part whose data has
  the key "kind" comes back with that value as its kind and without the entry; a message
  whose list of extensions is empty comes back with extensions None; a message whose
  identifier is the empty string is refused; and the envelope built with the default
  \<open>raw\<close> comes back with \<open>raw\<close> set to its tree.\<close>

theorem round_trip_counterexample:
  "A2APart_from_dict (JDict (A2APart_to_dict
      \<lparr> part_kind = ''text'', part_data = [(''text'', JStr ''Hello'')], part_metadata = Some [] \<rparr>))
     \<noteq> Inr \<lparr> part_kind = ''text'', part_data = [(''text'', JStr ''Hello'')],
               part_metadata = Some [] \<rparr> \<and>
   A2APart_from_dict (JDict (A2APart_to_dict
      \<lparr> part_kind = ''text'', part_data = [(''text'', JStr ''Hello'')], part_metadata = Some [] \<rparr>))
     = Inr \<lparr> part_kind = ''text'', part_data = [(''text'', JStr ''Hello'')], part_metadata = None \<rparr> \<and>
   A2APart_from_dict (JDict (A2APart_to_dict
      \<lparr> part_kind = ''text'', part_data = [(''kind'', JStr ''file'')], part_metadata = None \<rparr>))
     = Inr \<lparr> part_kind = ''file'', part_data = [], part_metadata = None \<rparr> \<and>
   A2AMessage_from_dict (JDict (A2AMessage_to_dict
      ((text_message ''Hello'' ''user'' ''m-1'' None)\<lparr>msg_extensions := Some []\<rparr>)))
     = Inr (text_message ''Hello'' ''user'' ''m-1'' None) \<and>
   A2AMessage_from_dict (JDict (A2AMessage_to_dict (text_message ''Hello'' ''user'' [] None)))
     = Inl (ValueError ''A2A message requires a string messageId'') \<and>
   A2AEnvelope_from_dict (JDict (A2AEnvelope_to_dict bare_envelope))
     = Inr (bare_envelope\<lparr>env_raw := [(''jsonrpc'', JStr ''2.0''), (''id'', JStr ''req-1'')]\<rparr>) \<and>
   env_raw bare_envelope = []"
  by (simp add: py_or_def py_get_def py_get_default_def dict_set_def dict_merge_def
                JSONRPC_VERSION_def A2APart_to_dict_def A2APart_from_dict_def
                create_text_part_def A2AMessage_to_dict_def nonempty_or_none_def
                A2AMessage_from_dict_def MessageSendConfiguration_to_dict_def
                MessageSendConfiguration_from_dict_def MessageSendParams_to_dict_def
                MessageSendParams_from_dict_def A2AEnvelope_to_dict_def
                A2AEnvelope_from_dict_def text_message_def bare_envelope_def
                Let_def)


section \<open>The sender of an A2A message\<close>

text \<open>
  C3 (as amended). \<open>derive_sender_id_from_message\<close> is a total function. It returns the value
  of the first of the metadata keys sender_id, senderId, agent_id, agentId, authorId,
  author_id (in that order) whose value is a string that is not empty after trimming;
  when there is none, the message's contextId if it is present and not the empty string;
  otherwise its taskId if it is present and not the empty string; otherwise
  \<open>"a2a:" + role\<close>.
\<close>

theorem derive_sender_id_precedence:
  "derive_sender_id_from_message m =
     (case find (\<lambda>k. nonblank_string (py_get (case msg_metadata m of None \<Rightarrow> [] | Some d \<Rightarrow> d) k))
             sender_keys of
        Some k \<Rightarrow> the (str_or_none (py_get (the (msg_metadata m)) k))
      | None \<Rightarrow>
          if msg_context_id m \<noteq> None \<and> msg_context_id m \<noteq> Some [] then the (msg_context_id m)
          else if msg_task_id m \<noteq> None \<and> msg_task_id m \<noteq> Some [] then the (msg_task_id m)
          else ''a2a:'' @ msg_role m)"
proof -
  define md where "md = (case msg_metadata m of None \<Rightarrow> [] | Some d \<Rightarrow> d)"
  have md: "(if truthy_opt (msg_metadata m) then the (msg_metadata m) else []) = md"
    by (cases "msg_metadata m") (auto simp: md_def)
  show ?thesis
  proof (cases "find (\<lambda>k. nonblank_string (py_get md k)) sender_keys")
    case None
    then show ?thesis
      unfolding derive_sender_id_from_message_def Let_def md scan_sender_keys_find
      by (simp add: truthy_opt_iff md_def [symmetric])
  next
    case (Some k)
    then have "nonblank_string (py_get md k)"
      by (auto simp: find_Some_iff)
    then obtain s where s: "py_get md k = JStr s"
      using nonblank_string_str by blast
    have "msg_metadata m \<noteq> None"
    proof
      assume "msg_metadata m = None"
      then have "md = []" by (simp add: md_def)
      with s show False by (simp add: py_get_def)
    qed
    then have "the (msg_metadata m) = md"
      by (auto simp: md_def)
    with Some s show ?thesis
      unfolding derive_sender_id_from_message_def Let_def md scan_sender_keys_find
      by (simp add: md_def [symmetric])
  qed
qed

text \<open>The cases the specification names: metadata senderId "A" with contextId "ctx" gives
  "A"; contextId "ctx" alone gives "ctx"; a taskId alone gives the taskId; nothing gives
  "a2a:" and the role.\<close>

theorem derive_sender_id_precedence_witness:
  "derive_sender_id_from_message
     ((text_message ''hi'' ''user'' ''m-1'' (Some [(''senderId'', JStr ''A'')]))
        \<lparr>msg_context_id := Some ''ctx''\<rparr>) = ''A'' \<and>
   derive_sender_id_from_message
     ((text_message ''hi'' ''user'' ''m-1'' None)\<lparr>msg_context_id := Some ''ctx''\<rparr>) = ''ctx'' \<and>
   derive_sender_id_from_message
     ((text_message ''hi'' ''user'' ''m-1'' None)\<lparr>msg_task_id := Some ''task-7''\<rparr>) = ''task-7'' \<and>
   derive_sender_id_from_message (text_message ''hi'' ''agent'' ''m-1'' None) = ''a2a:agent''"
  using derive_sender_id_precedence
          [of "(text_message ''hi'' ''user'' ''m-1'' (Some [(''senderId'', JStr ''A'')]))
                 \<lparr>msg_context_id := Some ''ctx''\<rparr>"]
        derive_sender_id_precedence
          [of "(text_message ''hi'' ''user'' ''m-1'' None)\<lparr>msg_context_id := Some ''ctx''\<rparr>"]
        derive_sender_id_precedence
          [of "(text_message ''hi'' ''user'' ''m-1'' None)\<lparr>msg_task_id := Some ''task-7''\<rparr>"]
        derive_sender_id_precedence [of "text_message ''hi'' ''agent'' ''m-1'' None"]
  by (simp add: text_message_def sender_keys_def nonblank_string_def py_get_def py_strip_def
                py_isspace_def)

text \<open>A contextId that is present but is the empty string is passed over: the message has
  no metadata, its contextId is \<open>""\<close> and its taskId "task-7", and the result is the
  taskId, not the contextId.\<close>

theorem derive_sender_id_blank_context_counterexample:
  "msg_metadata blank_context_message = None \<and>
   msg_context_id blank_context_message = Some [] \<and>
   derive_sender_id_from_message blank_context_message = ''task-7'' \<and>
   derive_sender_id_from_message blank_context_message \<noteq> the (msg_context_id blank_context_message)"
  by (simp add: blank_context_message_def text_message_def derive_sender_id_from_message_def
                sender_keys_def py_get_def)


section \<open>The node's own messages\<close>

text \<open>
  C4. Self-suppression, in both branches. When the payload is taken as an A2A envelope
  (it parses and yields a message \<open>m\<close>) and the sender derived from \<open>m\<close> is the node's
  agent id, or when the payload is taken as a legacy mapping and its \<open>sender_id\<close> is the
  node's agent id, then no Message is built, the method returns normally, no handler is
  invoked, and nothing is published or logged.
\<close>

theorem self_suppression:
  assumes "(embedded_message payload = Some m \<and> derive_sender_id_from_message m = agent_id s) \<or>
           (payload = JDict d \<and> embedded_message payload = None \<and>
            map_of d ''sender_id'' = Some (JStr (agent_id s)))"
    and "handle_message E topic payload s = (r, s')"
  shows "fst (normalize_payload E topic payload s) = Inr None \<and> r = Inr () \<and>
         invoked s' = invoked s \<and> wire s' = wire s \<and> logged s' = logged s"
proof -
  have n: "normalize_payload E topic payload s = (Inr None, s\<lparr>time_calls := Suc (time_calls s)\<rparr>)"
    using assms(1) normalize_payload_self_a2a normalize_payload_self_legacy by blast
  from handle_message_dropped [OF n] assms(2) n show ?thesis
    by auto
qed

text \<open>A node with one handler receives, on the group topic, a legacy payload and an A2A
  request whose sender is the node itself: the handler is not called.\<close>

theorem self_suppression_witness:
  "invoked (snd (handle_message quiet_environment ''rooms/room/group''
      (JDict [(''sender_id'', JStr ''agent''), (''content'', JStr ''My message''),
              (''message_id'', JStr ''msg-123''), (''audience'', JStr ''everyone'')])
      replying_node)) = [] \<and>
   wire (snd (handle_message quiet_environment ''rooms/room/group''
      (JDict [(''sender_id'', JStr ''agent''), (''content'', JStr ''My message''),
              (''message_id'', JStr ''msg-123''), (''audience'', JStr ''everyone'')])
      replying_node)) = [] \<and>
   invoked (snd (handle_message quiet_environment ''rooms/room/group''
      (request_payload (text_message ''Ping'' ''user'' ''m-1'' (Some [(''sender_id'', JStr ''agent'')]))
         ''req-1'')
      replying_node)) = [] \<and>
   message_handlers replying_node = [reply_handler]"
proof -
  let ?d = "[(''sender_id'', JStr ''agent''), (''content'', JStr ''My message''),
             (''message_id'', JStr ''msg-123''), (''audience'', JStr ''everyone'')]"
  let ?m = "text_message ''Ping'' ''user'' ''m-1'' (Some [(''sender_id'', JStr ''agent'')])"
  let ?h1 = "handle_message quiet_environment ''rooms/room/group'' (JDict ?d) replying_node"
  let ?h2 = "handle_message quiet_environment ''rooms/room/group'' (request_payload ?m ''req-1'')
               replying_node"
  have legacy: "JDict ?d = JDict ?d \<and> embedded_message (JDict ?d) = None \<and>
                map_of ?d ''sender_id'' = Some (JStr (agent_id replying_node))"
    by (simp add: py_or_def py_get_def py_get_default_def py_item_def dict_set_def
                dict_merge_def py_isspace_def py_strip_def JSONRPC_VERSION_def
                A2APart_to_dict_def A2APart_from_dict_def A2APart_text_def
                create_text_part_def A2AMessage_to_dict_def nonempty_or_none_def
                A2AMessage_from_dict_def primary_text_def sender_keys_def
                derive_sender_id_from_message_def MessageSendConfiguration_to_dict_def
                MessageSendConfiguration_from_dict_def MessageSendParams_to_dict_def
                MessageSendParams_from_dict_def SendMessageRequest_to_dict_def
                A2AEnvelope_message_def A2AEnvelope_from_dict_def is_a2a_envelope_def
                parse_a2a_envelope_def py_str_def Audience_of_def group_topic_def
                direct_topic_to_def ret_def raise_def and_then_def try_except_def logger_def
                client_call_def draw_uuid_def draw_time_def add_message_handler_def
                outgoing_topic_def send_message_def create_send_message_request_def
                default_args_def a2a_request_check_def a2a_part_list_def
                a2a_update_message_def a2a_constructed_message_def send_a2a_request_def
                is_direct_topic_def detect_audience_def detect_recipient_def reply_keys_def
                a2a_branch_def legacy_try_def legacy_branch_def normalize_payload_def
                target_topic_def handler_try_def handler_step_def dispatch_def
                handle_message_def embedded_message_def quiet_environment_def
                example_node_def text_message_def request_payload_def reply_handler_def
                replying_node_def
                )
  have a2a: "embedded_message (request_payload ?m ''req-1'') = Some ?m \<and>
             derive_sender_id_from_message ?m = agent_id replying_node"
    by (simp add: py_or_def py_get_def py_get_default_def py_item_def dict_set_def
                dict_merge_def py_isspace_def py_strip_def JSONRPC_VERSION_def
                A2APart_to_dict_def A2APart_from_dict_def A2APart_text_def
                create_text_part_def A2AMessage_to_dict_def nonempty_or_none_def
                A2AMessage_from_dict_def primary_text_def sender_keys_def
                derive_sender_id_from_message_def MessageSendConfiguration_to_dict_def
                MessageSendConfiguration_from_dict_def MessageSendParams_to_dict_def
                MessageSendParams_from_dict_def SendMessageRequest_to_dict_def
                A2AEnvelope_message_def A2AEnvelope_from_dict_def is_a2a_envelope_def
                parse_a2a_envelope_def py_str_def Audience_of_def group_topic_def
                direct_topic_to_def ret_def raise_def and_then_def try_except_def logger_def
                client_call_def draw_uuid_def draw_time_def add_message_handler_def
                outgoing_topic_def send_message_def create_send_message_request_def
                default_args_def a2a_request_check_def a2a_part_list_def
                a2a_update_message_def a2a_constructed_message_def send_a2a_request_def
                is_direct_topic_def detect_audience_def detect_recipient_def reply_keys_def
                a2a_branch_def legacy_try_def legacy_branch_def normalize_payload_def
                target_topic_def handler_try_def handler_step_def dispatch_def
                handle_message_def embedded_message_def quiet_environment_def
                example_node_def text_message_def request_payload_def reply_handler_def
                replying_node_def
                Let_def)
  have 1: "invoked (snd ?h1) = invoked replying_node \<and> wire (snd ?h1) = wire replying_node"
    using self_suppression [of "JDict ?d" ?m replying_node ?d quiet_environment
            "''rooms/room/group''" "fst ?h1" "snd ?h1"] legacy
    by simp
  have 2: "invoked (snd ?h2) = invoked replying_node"
    using self_suppression [of "request_payload ?m ''req-1''" ?m replying_node "[]"
            quiet_environment "''rooms/room/group''" "fst ?h2" "snd ?h2"] a2a
    by simp
  have "invoked replying_node = [] \<and> wire replying_node = [] \<and>
        message_handlers replying_node = [reply_handler]"
    by (simp add: py_or_def py_get_def py_get_default_def py_item_def dict_set_def
                dict_merge_def py_isspace_def py_strip_def JSONRPC_VERSION_def
                A2APart_to_dict_def A2APart_from_dict_def A2APart_text_def
                create_text_part_def A2AMessage_to_dict_def nonempty_or_none_def
                A2AMessage_from_dict_def primary_text_def sender_keys_def
                derive_sender_id_from_message_def MessageSendConfiguration_to_dict_def
                MessageSendConfiguration_from_dict_def MessageSendParams_to_dict_def
                MessageSendParams_from_dict_def SendMessageRequest_to_dict_def
                A2AEnvelope_message_def A2AEnvelope_from_dict_def is_a2a_envelope_def
                parse_a2a_envelope_def py_str_def Audience_of_def group_topic_def
                direct_topic_to_def ret_def raise_def and_then_def try_except_def logger_def
                client_call_def draw_uuid_def draw_time_def add_message_handler_def
                outgoing_topic_def send_message_def create_send_message_request_def
                default_args_def a2a_request_check_def a2a_part_list_def
                a2a_update_message_def a2a_constructed_message_def send_a2a_request_def
                is_direct_topic_def detect_audience_def detect_recipient_def reply_keys_def
                a2a_branch_def legacy_try_def legacy_branch_def normalize_payload_def
                target_topic_def handler_try_def handler_step_def dispatch_def
                handle_message_def embedded_message_def quiet_environment_def
                example_node_def text_message_def request_payload_def reply_handler_def
                replying_node_def
                )
  with 1 2 show ?thesis by simp
qed


section \<open>Malformed payloads\<close>

text \<open>
  C5. When the payload is not a mapping, or is a mapping that is not an A2A envelope and
  lacks the key \<open>sender_id\<close> or the key \<open>content\<close>, the transport callback returns
  normally (no exception escapes), invokes no handler and publishes nothing. What it
  leaves behind is at most one log entry, a warning: "Ignoring non-dict payload" for a
  payload that is not a mapping, "Malformed message received" with the missing key
  otherwise; the one payload dropped without a warning is a mapping without \<open>content\<close>
  whose \<open>sender_id\<close> is the node's own id, which is dropped as the node's own message.
\<close>

theorem malformed_payload_dropped:
  assumes "\<not> is_dict payload \<or>
           (payload = JDict d \<and> \<not> is_a2a_envelope payload \<and>
            (map_of d ''sender_id'' = None \<or> map_of d ''content'' = None))"
    and "handle_message E topic payload s = (r, s')"
  shows "r = Inr () \<and> invoked s' = invoked s \<and> wire s' = wire s \<and>
         logged s' = logged s @
           (if \<not> is_dict payload
            then [LogWarning (''Ignoring non-dict payload on '' @ topic)]
            else if map_of d ''sender_id'' = None
            then [LogWarning (''Malformed message received: '' @ exc_str (KeyError ''sender_id''))]
            else if map_of d ''sender_id'' = Some (JStr (agent_id s))
            then []
            else [LogWarning (''Malformed message received: '' @ exc_str (KeyError ''content''))])"
proof (cases "is_dict payload")
  case False
  from handle_message_dropped [OF normalize_payload_non_dict [OF False]] assms(2) False
  show ?thesis by auto
next
  case True
  with assms(1) have p: "payload = JDict d" and e: "embedded_message (JDict d) = None"
    and missing: "map_of d ''sender_id'' = None \<or> map_of d ''content'' = None"
    using not_envelope_no_message by auto
  let ?s1 = "s\<lparr>time_calls := Suc (time_calls s)\<rparr>"
  let ?aud = "detect_audience s topic d"
  let ?branch = "legacy_branch E d ?aud (detect_recipient s ?aud d)
                   (py_get_default d ''timestamp'' (JFloat (time_time E (time_calls s)))) ?s1"
  have n: "normalize_payload E topic payload s = ?branch"
    using p e by (simp add: normalize_payload_dict Let_def)
  show ?thesis
  proof (cases "map_of d ''sender_id''")
    case None
    from n legacy_branch_missing_sender [OF None, of E ?aud _ _ ?s1]
    have "normalize_payload E topic payload s
            = (Inr None, ?s1\<lparr>logged := logged ?s1 @
                 [LogWarning (''Malformed message received: '' @ exc_str (KeyError ''sender_id''))]\<rparr>)"
      by simp
    from handle_message_dropped [OF this] assms(2) None p show ?thesis
      by auto
  next
    case (Some sender)
    show ?thesis
    proof (cases "sender = JStr (agent_id s)")
      case own: True
      with Some have "map_of d ''sender_id'' = Some (JStr (agent_id ?s1))"
        by simp
      from n legacy_branch_self [OF this, of E ?aud]
      have "normalize_payload E topic payload s = (Inr None, ?s1)"
        by simp
      from handle_message_dropped [OF this] assms(2) Some own p show ?thesis
        by auto
    next
      case other: False
      from missing Some have c: "map_of d ''content'' = None"
        by simp
      from other have "sender \<noteq> JStr (agent_id ?s1)"
        by simp
      from legacy_branch_missing_content [OF Some this c, of E ?aud] n
      obtain s2 where "normalize_payload E topic payload s = (Inr None, s2)"
        and "invoked s2 = invoked ?s1" and "wire s2 = wire ?s1"
        and "logged s2 = logged ?s1 @
               [LogWarning (''Malformed message received: '' @ exc_str (KeyError ''content''))]"
        by metis
      with handle_message_dropped [of E topic payload s s2] assms(2) Some other p show ?thesis
        by auto
    qed
  qed
qed

text \<open>A string payload, a mapping without \<open>sender_id\<close> and a mapping without \<open>content\<close>
  reach a node with one handler: the handler is not called, nothing is published, one
  warning is logged.\<close>

theorem malformed_payload_dropped_witness:
  "handle_message quiet_environment ''rooms/room/group'' (JStr ''not a mapping'') replying_node
     = (Inr (), replying_node
          \<lparr>logged := [LogWarning ''Ignoring non-dict payload on rooms/room/group'']\<rparr>) \<and>
   fst (handle_message quiet_environment ''rooms/room/group''
          (JDict [(''content'', JStr ''hi'')]) replying_node) = Inr () \<and>
   invoked (snd (handle_message quiet_environment ''rooms/room/group''
          (JDict [(''content'', JStr ''hi'')]) replying_node)) = [] \<and>
   logged (snd (handle_message quiet_environment ''rooms/room/group''
          (JDict [(''content'', JStr ''hi'')]) replying_node))
     = [LogWarning (''Malformed message received: '' @ exc_str (KeyError ''sender_id''))] \<and>
   invoked (snd (handle_message quiet_environment ''rooms/room/group''
          (JDict [(''sender_id'', JStr ''peer'')]) replying_node)) = [] \<and>
   wire (snd (handle_message quiet_environment ''rooms/room/group''
          (JDict [(''sender_id'', JStr ''peer'')]) replying_node)) = [] \<and>
   logged (snd (handle_message quiet_environment ''rooms/room/group''
          (JDict [(''sender_id'', JStr ''peer'')]) replying_node))
     = [LogWarning (''Malformed message received: '' @ exc_str (KeyError ''content''))]"
proof -
  let ?E = quiet_environment
  let ?t = "''rooms/room/group''"
  let ?h0 = "handle_message ?E ?t (JStr ''not a mapping'') replying_node"
  let ?d1 = "[(''content'', JStr ''hi'')]"
  let ?h1 = "handle_message ?E ?t (JDict ?d1) replying_node"
  let ?d2 = "[(''sender_id'', JStr ''peer'')]"
  let ?h2 = "handle_message ?E ?t (JDict ?d2) replying_node"
  have start: "invoked replying_node = [] \<and> wire replying_node = [] \<and> logged replying_node = []
               \<and> agent_id replying_node = ''agent''"
    by (simp add: py_or_def py_get_def py_get_default_def py_item_def dict_set_def
                dict_merge_def py_isspace_def py_strip_def JSONRPC_VERSION_def
                A2APart_to_dict_def A2APart_from_dict_def A2APart_text_def
                create_text_part_def A2AMessage_to_dict_def nonempty_or_none_def
                A2AMessage_from_dict_def primary_text_def sender_keys_def
                derive_sender_id_from_message_def MessageSendConfiguration_to_dict_def
                MessageSendConfiguration_from_dict_def MessageSendParams_to_dict_def
                MessageSendParams_from_dict_def SendMessageRequest_to_dict_def
                A2AEnvelope_message_def A2AEnvelope_from_dict_def is_a2a_envelope_def
                parse_a2a_envelope_def py_str_def Audience_of_def group_topic_def
                direct_topic_to_def ret_def raise_def and_then_def try_except_def logger_def
                client_call_def draw_uuid_def draw_time_def add_message_handler_def
                outgoing_topic_def send_message_def create_send_message_request_def
                default_args_def a2a_request_check_def a2a_part_list_def
                a2a_update_message_def a2a_constructed_message_def send_a2a_request_def
                is_direct_topic_def detect_audience_def detect_recipient_def reply_keys_def
                a2a_branch_def legacy_try_def legacy_branch_def normalize_payload_def
                target_topic_def handler_try_def handler_step_def dispatch_def
                handle_message_def quiet_environment_def example_node_def reply_handler_def
                replying_node_def
                )
  have 0: "?h0 = (Inr (), replying_node
                    \<lparr>logged := [LogWarning ''Ignoring non-dict payload on rooms/room/group'']\<rparr>)"
    by (simp add: py_or_def py_get_def py_get_default_def py_item_def dict_set_def
                dict_merge_def py_isspace_def py_strip_def JSONRPC_VERSION_def
                A2APart_to_dict_def A2APart_from_dict_def A2APart_text_def
                create_text_part_def A2AMessage_to_dict_def nonempty_or_none_def
                A2AMessage_from_dict_def primary_text_def sender_keys_def
                derive_sender_id_from_message_def MessageSendConfiguration_to_dict_def
                MessageSendConfiguration_from_dict_def MessageSendParams_to_dict_def
                MessageSendParams_from_dict_def SendMessageRequest_to_dict_def
                A2AEnvelope_message_def A2AEnvelope_from_dict_def is_a2a_envelope_def
                parse_a2a_envelope_def py_str_def Audience_of_def group_topic_def
                direct_topic_to_def ret_def raise_def and_then_def try_except_def logger_def
                client_call_def draw_uuid_def draw_time_def add_message_handler_def
                outgoing_topic_def send_message_def create_send_message_request_def
                default_args_def a2a_request_check_def a2a_part_list_def
                a2a_update_message_def a2a_constructed_message_def send_a2a_request_def
                is_direct_topic_def detect_audience_def detect_recipient_def reply_keys_def
                a2a_branch_def legacy_try_def legacy_branch_def normalize_payload_def
                target_topic_def handler_try_def handler_step_def dispatch_def
                handle_message_def quiet_environment_def example_node_def reply_handler_def
                replying_node_def
                )
  have 1: "fst ?h1 = Inr () \<and> invoked (snd ?h1) = [] \<and>
           logged (snd ?h1)
             = [LogWarning (''Malformed message received: '' @ exc_str (KeyError ''sender_id''))]"
    using malformed_payload_dropped [of "JDict ?d1" ?d1 ?E ?t replying_node "fst ?h1" "snd ?h1"]
          start
    by (simp add: is_a2a_envelope_def py_get_def)
  have 2: "invoked (snd ?h2) = [] \<and> wire (snd ?h2) = [] \<and>
           logged (snd ?h2)
             = [LogWarning (''Malformed message received: '' @ exc_str (KeyError ''content''))]"
    using malformed_payload_dropped [of "JDict ?d2" ?d2 ?E ?t replying_node "fst ?h2" "snd ?h2"]
          start
    by (simp add: is_a2a_envelope_def py_get_def)
  from 0 1 2 show ?thesis
    by blast
qed


section \<open>The handler loop\<close>

text \<open>
  C6. Handler fault isolation. For every accepted message \<open>m\<close> and every list of
  registered handlers, the dispatch loop returns normally (no exception propagates out
  of it), and every registered handler is invoked exactly once, in registration order,
  with the same message \<open>m\<close>, whatever the handlers before it did. The exception of a
  handler that raises is logged as an error. More generally, whenever the body of the
  \<open>try\<close> for a handler raises (in the handler itself, or while its result is translated
  and published), the loop catches the exception, logs it as an error and goes on. The
  loop is what \<open>_handle_message\<close> runs on the message it has accepted, and
  \<open>_handle_message\<close> itself returns normally for every topic and payload.
\<close>

theorem handler_fault_isolation:
  "fst (dispatch E m s) = Inr () \<and>
   invoked (snd (dispatch E m s))
     = invoked s @ map (\<lambda>k. (k, m)) [0..<length (message_handlers s)] \<and>
   (\<forall>k e. k < length (message_handlers s) \<and> (message_handlers s ! k) m = Inl e \<longrightarrow>
      LogError (''Error in message handler: '' @ exc_str e) \<in> set (logged (snd (dispatch E m s)))) \<and>
   (\<forall>i h s1 e s2. handler_try E m i h s1 = (Inl e, s2) \<longrightarrow>
      handler_step E m i h s1
        = (Inr (), s2\<lparr>logged := logged s2 @
                         [LogError (''Error in message handler: '' @ exc_str e)]\<rparr>)) \<and>
   (\<forall>topic payload s0. normalize_payload E topic payload s0 = (Inr (Some m), s) \<longrightarrow>
      handle_message E topic payload s0 = dispatch E m s) \<and>
   (\<forall>topic payload. fst (handle_message E topic payload s) = Inr ())"
proof -
  let ?s0 = "s\<lparr>logged := logged s @
               [LogInfo (''Received message from '' @ py_str E (sender_id m) @ '': ''
                         @ take 50 (py_str E (content m)) @ ''...'')]\<rparr>"
  have d: "dispatch E m s = run_handlers E m 0 (message_handlers s) ?s0"
    by (simp add: dispatch_def and_then_def logger_def)
  from run_handlers_invokes_all [of E m 0 "message_handlers s" ?s0]
       run_handlers_logs_raising [of _ "message_handlers s" m _ E 0 ?s0]
       handler_step_caught [of E m]
  have "fst (dispatch E m s) = Inr () \<and>
     invoked (snd (dispatch E m s))
       = invoked s @ map (\<lambda>k. (k, m)) [0..<length (message_handlers s)] \<and>
     (\<forall>k e. k < length (message_handlers s) \<and> (message_handlers s ! k) m = Inl e \<longrightarrow>
        LogError (''Error in message handler: '' @ exc_str e) \<in> set (logged (snd (dispatch E m s)))) \<and>
     (\<forall>i h s1 e s2. handler_try E m i h s1 = (Inl e, s2) \<longrightarrow>
        handler_step E m i h s1
          = (Inr (), s2\<lparr>logged := logged s2 @
                           [LogError (''Error in message handler: '' @ exc_str e)]\<rparr>))"
    unfolding d by auto
  with handle_message_accepted [of E _ _ _ m s] handle_message_returns [of E _ _ s]
  show ?thesis
    by blast
qed

text \<open>Three handlers over a transport whose \<open>publish\<close> always raises: the first handler
  raises, the request of the second cannot be published, the reply of the third cannot
  be sent. All three are invoked with the message, the loop returns normally, and the
  log holds the three errors.\<close>

theorem handler_fault_isolation_witness:
  "fst (dispatch failing_publish peer_message faulty_node) = Inr () \<and>
   invoked (snd (dispatch failing_publish peer_message faulty_node))
     = [(0, peer_message), (1, peer_message), (2, peer_message)] \<and>
   LogError ''Error in message handler: boom''
     \<in> set (logged (snd (dispatch failing_publish peer_message faulty_node))) \<and>
   logged (snd (dispatch failing_publish peer_message faulty_node))
     = [LogInfo ''Received message from peer: Ping...'',
        LogError ''Error in message handler: boom'',
        LogError ''Error in message handler: broker unreachable'',
        LogError ''Failed to send message: broker unreachable'']"
proof -
  let ?r = "dispatch failing_publish peer_message faulty_node"
  have hs: "message_handlers faulty_node = [raising_handler, request_handler, reply_handler]"
    and i: "invoked faulty_node = []"
    by (simp_all add: py_get_def dict_set_def dict_merge_def JSONRPC_VERSION_def
                A2APart_to_dict_def create_text_part_def A2AMessage_to_dict_def
                MessageSendConfiguration_to_dict_def MessageSendParams_to_dict_def
                SendMessageRequest_to_dict_def is_a2a_envelope_def py_str_def group_topic_def
                direct_topic_to_def ret_def raise_def and_then_def try_except_def logger_def
                client_call_def draw_uuid_def draw_time_def add_message_handler_def
                outgoing_topic_def send_message_def create_send_message_request_def
                default_args_def a2a_request_check_def a2a_part_list_def
                a2a_update_message_def a2a_constructed_message_def send_a2a_request_def
                target_topic_def handler_try_def handler_step_def dispatch_def
                quiet_environment_def example_node_def text_message_def reply_handler_def
                failing_publish_def peer_message_def raising_handler_def request_handler_def
                faulty_node_def
                )
  have up: "[0..<length [raising_handler, request_handler, reply_handler]] = [0, 1, 2]"
    by (simp add: upt_rec)
  note t = handler_fault_isolation [of failing_publish peer_message faulty_node]
  from t have 1: "fst ?r = Inr ()"
    by blast
  from t have "0 < length (message_handlers faulty_node) \<and>
               (message_handlers faulty_node ! 0) peer_message = Inl (OtherError ''boom'') \<longrightarrow>
               LogError (''Error in message handler: '' @ exc_str (OtherError ''boom''))
                 \<in> set (logged (snd ?r))"
    by blast
  then have 3: "LogError ''Error in message handler: boom'' \<in> set (logged (snd ?r))"
    by (simp add: hs raising_handler_def)
  have 4: "logged (snd ?r)
     = [LogInfo ''Received message from peer: Ping...'',
        LogError ''Error in message handler: boom'',
        LogError ''Error in message handler: broker unreachable'',
        LogError ''Failed to send message: broker unreachable'']"
    by (simp add: py_get_def dict_set_def dict_merge_def JSONRPC_VERSION_def
                A2APart_to_dict_def create_text_part_def A2AMessage_to_dict_def
                MessageSendConfiguration_to_dict_def MessageSendParams_to_dict_def
                SendMessageRequest_to_dict_def is_a2a_envelope_def py_str_def group_topic_def
                direct_topic_to_def ret_def raise_def and_then_def try_except_def logger_def
                client_call_def draw_uuid_def draw_time_def add_message_handler_def
                outgoing_topic_def send_message_def create_send_message_request_def
                default_args_def a2a_request_check_def a2a_part_list_def
                a2a_update_message_def a2a_constructed_message_def send_a2a_request_def
                target_topic_def handler_try_def handler_step_def dispatch_def
                quiet_environment_def example_node_def text_message_def reply_handler_def
                failing_publish_def peer_message_def raising_handler_def request_handler_def
                faulty_node_def
                Let_def)
  from t have "invoked (snd ?r) = [(0, peer_message), (1, peer_message), (2, peer_message)]"
    by (simp add: hs i up)
  with 1 3 4 show ?thesis
    by blast
qed


section \<open>Audience detection\<close>

text \<open>
  C7. Audience detection is a total function of the node, the topic and the payload
  mapping: when \<open>payload["audience"]\<close> is the string "everyone" or "direct" it is that
  audience; for every other value (a missing key, another string, a value that is not a
  string) it is DIRECT exactly when the topic starts with \<open>rooms/{room}/direct/\<close> and
  EVERYONE otherwise. Every Message the method builds from the payload carries that
  audience.
\<close>

theorem audience_detection:
  "detect_audience s topic d =
     (if py_get d ''audience'' = JStr ''everyone'' then EVERYONE
      else if py_get d ''audience'' = JStr ''direct'' then DIRECT
      else if prefix (''rooms/'' @ room_id s @ ''/direct/'') topic then DIRECT
      else EVERYONE) \<and>
   (\<forall>msg s'. normalize_payload E topic (JDict d) s = (Inr (Some msg), s') \<longrightarrow>
      audience msg = detect_audience s topic d)"
  using detect_audience_eq [of s topic d] normalize_payload_audience [of E topic d s]
  by blast

text \<open>An audience string the enum does not know, on the node's direct topic and on the
  group topic.\<close>

theorem audience_detection_witness:
  "detect_audience example_node ''rooms/room/direct/agent''
     [(''sender_id'', JStr ''peer''), (''content'', JStr ''hi''), (''audience'', JStr ''bogus'')]
     = DIRECT \<and>
   detect_audience example_node ''rooms/room/group''
     [(''sender_id'', JStr ''peer''), (''content'', JStr ''hi''), (''audience'', JInt 7)]
     = EVERYONE \<and>
   map_option audience
     (projr (fst (normalize_payload quiet_environment ''rooms/room/direct/agent''
        (JDict [(''sender_id'', JStr ''peer''), (''content'', JStr ''hi''),
                (''audience'', JStr ''bogus'')]) example_node)))
     = Some DIRECT"
proof -
  let ?d = "[(''sender_id'', JStr ''peer''), (''content'', JStr ''hi''), (''audience'', JStr ''bogus'')]"
  let ?d' = "[(''sender_id'', JStr ''peer''), (''content'', JStr ''hi''), (''audience'', JInt 7)]"
  let ?r = "normalize_payload quiet_environment ''rooms/room/direct/agent'' (JDict ?d) example_node"
  have a: "detect_audience example_node ''rooms/room/direct/agent'' ?d = DIRECT"
    using audience_detection [of example_node "''rooms/room/direct/agent''" ?d quiet_environment]
    by (simp add: py_get_def example_node_def)
  have b: "detect_audience example_node ''rooms/room/group'' ?d' = EVERYONE"
    using audience_detection [of example_node "''rooms/room/group''" ?d' quiet_environment]
    by (simp add: py_get_def example_node_def)
  have "\<exists>msg. fst ?r = Inr (Some msg)"
    by (simp add: py_or_def py_get_def py_get_default_def py_item_def dict_set_def
                dict_merge_def py_isspace_def py_strip_def JSONRPC_VERSION_def
                A2APart_to_dict_def A2APart_from_dict_def A2APart_text_def
                A2AMessage_to_dict_def nonempty_or_none_def A2AMessage_from_dict_def
                primary_text_def sender_keys_def derive_sender_id_from_message_def
                MessageSendConfiguration_from_dict_def MessageSendParams_from_dict_def
                A2AEnvelope_message_def A2AEnvelope_from_dict_def is_a2a_envelope_def
                parse_a2a_envelope_def Audience_of_def ret_def raise_def and_then_def
                try_except_def logger_def draw_uuid_def draw_time_def is_direct_topic_def
                detect_audience_def detect_recipient_def reply_keys_def a2a_branch_def
                legacy_try_def legacy_branch_def normalize_payload_def quiet_environment_def
                example_node_def
                Let_def)
  then obtain msg where m: "fst ?r = Inr (Some msg)" by blast
  then have "?r = (Inr (Some msg), snd ?r)"
    by (metis prod.collapse)
  with audience_detection [of example_node "''rooms/room/direct/agent''" ?d quiet_environment]
  have "audience msg = detect_audience example_node ''rooms/room/direct/agent'' ?d"
    by blast
  with a m have "map_option audience (projr (fst ?r)) = Some DIRECT"
    by simp
  with a b show ?thesis by blast
qed


section \<open>The topic of an outgoing message\<close>

text \<open>
  C8 (as amended). For every joined node: \<open>send_message\<close> with audience EVERYONE makes
  exactly one publish, to \<open>rooms/{room}/group\<close>; with audience DIRECT and a recipient id
  \<open>x\<close> that is not the empty string it makes exactly one publish, to
  \<open>rooms/{room}/direct/x\<close>; with audience DIRECT and a recipient id that is absent or
  empty it raises ValueError and publishes nothing. The same holds for
  \<open>send_a2a_request\<close>, where the publish is made provided the remaining arguments pass
  the method's checks (metadata arguments that are dictionaries, a role that is "user"
  or "agent", string identifiers, and a message, a part or a text to send).
\<close>

theorem outgoing_topic_selection:
  assumes "joined s"
  shows
    "(\<exists>payload. wire (snd (send_message E body EVERYONE recipient reply_to s))
        = wire s @ [Publish (''rooms/'' @ room_id s @ ''/group'') payload (qos s)]) \<and>
     (x \<noteq> [] \<longrightarrow>
        (\<exists>payload. wire (snd (send_message E body DIRECT (JStr x) reply_to s))
           = wire s @ [Publish (''rooms/'' @ room_id s @ ''/direct/'' @ x) payload (qos s)])) \<and>
     (\<not> truthy recipient \<longrightarrow>
        send_message E body DIRECT recipient reply_to s
          = (Inl (ValueError ''Recipient ID required for direct messages''), s)) \<and>
     (a2a_arguments_accepted a \<and> arg_audience a = EVERYONE \<longrightarrow>
        (\<exists>payload. wire (snd (send_a2a_request E a s))
           = wire s @ [Publish (''rooms/'' @ room_id s @ ''/group'') payload (qos s)])) \<and>
     (a2a_arguments_accepted a \<and> arg_audience a = DIRECT \<and> arg_recipient_id a = JStr x \<and> x \<noteq> [] \<longrightarrow>
        (\<exists>payload. wire (snd (send_a2a_request E a s))
           = wire s @ [Publish (''rooms/'' @ room_id s @ ''/direct/'' @ x) payload (qos s)])) \<and>
     (arg_audience a = DIRECT \<and> \<not> truthy (arg_recipient_id a) \<longrightarrow>
        send_a2a_request E a s
          = (Inl (ValueError ''Recipient ID required for direct A2A messages''), s))"
proof -
  have 1: "\<exists>payload. wire (snd (send_message E body EVERYONE recipient reply_to s))
        = wire s @ [Publish (''rooms/'' @ room_id s @ ''/group'') payload (qos s)]"
    using send_message_publishes [OF assms, of EVERYONE recipient E body reply_to]
    by (simp add: outgoing_topic_def group_topic_def)
  have 2: "\<exists>payload. wire (snd (send_message E body DIRECT (JStr x) reply_to s))
           = wire s @ [Publish (''rooms/'' @ room_id s @ ''/direct/'' @ x) payload (qos s)]"
    if "x \<noteq> []"
    using send_message_publishes [OF assms, of DIRECT "JStr x" E body reply_to] that
    by (simp add: outgoing_topic_def direct_topic_to_def py_str_def)
  have 4: "\<exists>payload. wire (snd (send_a2a_request E a s))
           = wire s @ [Publish (''rooms/'' @ room_id s @ ''/group'') payload (qos s)]"
    if "a2a_arguments_accepted a" and "arg_audience a = EVERYONE"
  proof -
    from that assms have "a2a_request_check s a = None"
      by (intro a2a_request_check_accepted) simp_all
    moreover from that have "arg_message a \<noteq> None \<or> a2a_part_list a \<noteq> []"
      by (simp add: a2a_arguments_accepted_def)
    ultimately show ?thesis
      using send_a2a_request_publishes [of s a E] that(2)
      by (simp add: outgoing_topic_def group_topic_def)
  qed
  have 5: "\<exists>payload. wire (snd (send_a2a_request E a s))
           = wire s @ [Publish (''rooms/'' @ room_id s @ ''/direct/'' @ x) payload (qos s)]"
    if "a2a_arguments_accepted a" and "arg_audience a = DIRECT"
      and "arg_recipient_id a = JStr x" and "x \<noteq> []"
  proof -
    from that assms have "a2a_request_check s a = None"
      by (intro a2a_request_check_accepted) simp_all
    moreover from that have "arg_message a \<noteq> None \<or> a2a_part_list a \<noteq> []"
      by (simp add: a2a_arguments_accepted_def)
    ultimately show ?thesis
      using send_a2a_request_publishes [of s a E] that(2,3)
      by (simp add: outgoing_topic_def direct_topic_to_def py_str_def)
  qed
  from 1 2 4 5 send_message_refuses [OF assms] send_a2a_request_refuses [OF assms]
  show ?thesis
    by blast
qed

text \<open>The sends of the specification's scenarios on the example node (room "room"): a
  group message, a direct message to "recipient-agent", a direct message without
  recipient, and the A2A request with the text "Hello via A2A" for "agent-recipient".\<close>

theorem outgoing_topic_selection_witness:
  "published_topics (snd (send_message quiet_environment (JStr ''Hello, world!'') EVERYONE JNull
      JNull example_node)) = [''rooms/room/group''] \<and>
   published_topics (snd (send_message quiet_environment (JStr ''Hello, recipient!'') DIRECT
      (JStr ''recipient-agent'') JNull example_node)) = [''rooms/room/direct/recipient-agent''] \<and>
   send_message quiet_environment (JStr ''Test message'') DIRECT JNull JNull example_node
     = (Inl (ValueError ''Recipient ID required for direct messages''), example_node) \<and>
   published_topics (snd (send_a2a_request quiet_environment
      (default_args\<lparr>arg_text := Some ''Hello via A2A'',
                    arg_recipient_id := JStr ''agent-recipient''\<rparr>) example_node))
     = [''rooms/room/direct/agent-recipient''] \<and>
   send_a2a_request quiet_environment (default_args\<lparr>arg_text := Some ''Hello via A2A''\<rparr>)
      example_node
     = (Inl (ValueError ''Recipient ID required for direct A2A messages''), example_node)"
proof -
  let ?E = quiet_environment
  let ?a = "default_args\<lparr>arg_text := Some ''Hello via A2A'',
                         arg_recipient_id := JStr ''agent-recipient''\<rparr>"
  let ?b = "default_args\<lparr>arg_text := Some ''Hello via A2A''\<rparr>"
  have j: "joined example_node" and w: "wire example_node = []" and r: "room_id example_node = ''room''"
    by (simp_all add: dict_set_def dict_merge_def JSONRPC_VERSION_def A2APart_to_dict_def
                create_text_part_def A2AMessage_to_dict_def
                MessageSendConfiguration_to_dict_def MessageSendParams_to_dict_def
                SendMessageRequest_to_dict_def py_str_def group_topic_def direct_topic_to_def
                ret_def raise_def and_then_def try_except_def logger_def client_call_def
                draw_uuid_def draw_time_def outgoing_topic_def send_message_def
                create_send_message_request_def default_args_def a2a_request_check_def
                a2a_part_list_def a2a_update_message_def a2a_constructed_message_def
                send_a2a_request_def quiet_environment_def example_node_def
                a2a_arguments_accepted_def published_topics_def
                )
  have ok: "a2a_arguments_accepted ?a \<and> arg_audience ?a = DIRECT \<and>
            arg_recipient_id ?a = JStr ''agent-recipient''"
    by (simp add: a2a_arguments_accepted_def default_args_def a2a_part_list_def)
  have no: "arg_audience ?b = DIRECT \<and> \<not> truthy (arg_recipient_id ?b)"
    by (simp add: default_args_def)
  from outgoing_topic_selection [OF j, of ?E "JStr ''Hello, world!''" JNull JNull "''x''" ?a]
  have 1: "published_topics (snd (send_message ?E (JStr ''Hello, world!'') EVERYONE JNull JNull
             example_node)) = [''rooms/room/group'']"
    by (auto simp: published_topics_def w r List.map_filter_simps)
  from outgoing_topic_selection [OF j, of ?E "JStr ''Hello, recipient!''" JNull JNull
         "''recipient-agent''" ?a]
  have 2: "published_topics (snd (send_message ?E (JStr ''Hello, recipient!'') DIRECT
             (JStr ''recipient-agent'') JNull example_node)) = [''rooms/room/direct/recipient-agent'']"
    by (auto simp: published_topics_def w r List.map_filter_simps)
  from outgoing_topic_selection [OF j, of ?E "JStr ''Test message''" JNull JNull "''x''" ?a]
  have 3: "send_message ?E (JStr ''Test message'') DIRECT JNull JNull example_node
             = (Inl (ValueError ''Recipient ID required for direct messages''), example_node)"
    by simp
  from outgoing_topic_selection [OF j, of ?E JNull JNull JNull "''agent-recipient''" ?a] ok
  have 4: "published_topics (snd (send_a2a_request ?E ?a example_node))
             = [''rooms/room/direct/agent-recipient'']"
    by (auto simp: published_topics_def w r List.map_filter_simps)
  from outgoing_topic_selection [OF j, of ?E JNull JNull JNull "''x''" ?b] no
  have 5: "send_a2a_request ?E ?b example_node
             = (Inl (ValueError ''Recipient ID required for direct A2A messages''), example_node)"
    by blast
  from 1 2 3 4 5 show ?thesis
    by blast
qed

text \<open>Two sends on the joined example node that publish nothing: a direct
  \<open>send_message\<close> whose recipient id is the empty string raises instead of publishing to
  \<open>rooms/room/direct/\<close>, and a \<open>send_a2a_request\<close> to EVERYONE without message, parts or
  text raises instead of publishing to \<open>rooms/room/group\<close>.\<close>

theorem outgoing_topic_selection_counterexample:
  "joined example_node \<and>
   send_message quiet_environment (JStr ''hi'') DIRECT (JStr []) JNull example_node
     = (Inl (ValueError ''Recipient ID required for direct messages''), example_node) \<and>
   send_a2a_request quiet_environment (default_args\<lparr>arg_audience := EVERYONE\<rparr>) example_node
     = (Inl (ValueError ''Either message, parts, or text must be provided''), example_node) \<and>
   published_topics example_node = []"
  by (simp add: dict_set_def dict_merge_def JSONRPC_VERSION_def A2APart_to_dict_def
                create_text_part_def A2AMessage_to_dict_def
                MessageSendConfiguration_to_dict_def MessageSendParams_to_dict_def
                SendMessageRequest_to_dict_def py_str_def group_topic_def direct_topic_to_def
                ret_def raise_def and_then_def try_except_def logger_def client_call_def
                draw_uuid_def draw_time_def outgoing_topic_def send_message_def
                create_send_message_request_def default_args_def a2a_request_check_def
                a2a_part_list_def a2a_update_message_def a2a_constructed_message_def
                send_a2a_request_def quiet_environment_def example_node_def
                published_topics_def
                List.map_filter_simps)


section \<open>The content of an inbound A2A message\<close>

text \<open>
  C9 (as amended). For every inbound A2A envelope that is accepted (it yields a message
  \<open>m\<close> whose derived sender is not the node itself), a Message is built, and its content
  is the primary text of \<open>m\<close> when that text is a string that is not empty; when no part
  yields a text string, or the primary text is the empty string, the content is the
  full serialized tree of \<open>m\<close>. The primary text is the text of the first part whose
  \<open>text\<close> accessor yields a string.
\<close>

theorem a2a_content:
  assumes "embedded_message payload = Some m"
    and "derive_sender_id_from_message m \<noteq> agent_id s"
  shows "(\<exists>msg s'. normalize_payload E topic payload s = (Inr (Some msg), s') \<and>
            content msg =
              (case primary_text m of
                 Some t \<Rightarrow> if t \<noteq> [] then JStr t else JDict (A2AMessage_to_dict m)
               | None \<Rightarrow> JDict (A2AMessage_to_dict m))) \<and>
         primary_text m =
           (case find (\<lambda>p. A2APart_text p \<noteq> None) (msg_parts m) of
              None \<Rightarrow> None
            | Some p \<Rightarrow> A2APart_text p)"
proof -
  from embedded_message_dict [OF assms(1)] obtain d where d: "payload = JDict d"
    by blast
  from a2a_branch_content [OF assms(2)] assms(1) d
  have "\<exists>msg s'. normalize_payload E topic payload s = (Inr (Some msg), s') \<and>
            content msg =
              (case primary_text m of
                 Some t \<Rightarrow> if t \<noteq> [] then JStr t else JDict (A2AMessage_to_dict m)
               | None \<Rightarrow> JDict (A2AMessage_to_dict m))"
    by (simp add: normalize_payload_dict Let_def) metis
  then show ?thesis
    by (simp add: primary_text_def primary_text_of_find)
qed

text \<open>The request of the specification's scenario: the text "Ping" from "peer" becomes the
  content.\<close>

theorem a2a_content_witness:
  "map_option content
     (projr (fst (normalize_payload quiet_environment ''rooms/room/direct/agent''
        (request_payload (text_message ''Ping'' ''user'' ''m-1'' (Some [(''sender_id'', JStr ''peer'')]))
           ''req-234'')
        example_node)))
     = Some (JStr ''Ping'')"
proof -
  let ?m = "text_message ''Ping'' ''user'' ''m-1'' (Some [(''sender_id'', JStr ''peer'')])"
  let ?p = "request_payload ?m ''req-234''"
  have e: "embedded_message ?p = Some ?m"
    by (simp add: py_or_def py_get_def py_get_default_def py_item_def dict_set_def
                dict_merge_def py_isspace_def py_strip_def JSONRPC_VERSION_def
                A2APart_to_dict_def A2APart_from_dict_def A2APart_text_def
                create_text_part_def A2AMessage_to_dict_def nonempty_or_none_def
                A2AMessage_from_dict_def primary_text_def sender_keys_def
                derive_sender_id_from_message_def MessageSendConfiguration_to_dict_def
                MessageSendConfiguration_from_dict_def MessageSendParams_to_dict_def
                MessageSendParams_from_dict_def SendMessageRequest_to_dict_def
                A2AEnvelope_message_def A2AEnvelope_from_dict_def is_a2a_envelope_def
                parse_a2a_envelope_def Audience_of_def ret_def raise_def and_then_def
                try_except_def logger_def draw_uuid_def draw_time_def is_direct_topic_def
                detect_audience_def detect_recipient_def reply_keys_def a2a_branch_def
                legacy_try_def legacy_branch_def normalize_payload_def embedded_message_def
                quiet_environment_def example_node_def text_message_def request_payload_def
                Let_def)
  have o: "derive_sender_id_from_message ?m \<noteq> agent_id example_node"
    by (simp add: py_or_def py_get_def py_get_default_def py_item_def dict_set_def
                dict_merge_def py_isspace_def py_strip_def JSONRPC_VERSION_def
                A2APart_to_dict_def A2APart_from_dict_def A2APart_text_def
                create_text_part_def A2AMessage_to_dict_def nonempty_or_none_def
                A2AMessage_from_dict_def primary_text_def sender_keys_def
                derive_sender_id_from_message_def MessageSendConfiguration_to_dict_def
                MessageSendConfiguration_from_dict_def MessageSendParams_to_dict_def
                MessageSendParams_from_dict_def SendMessageRequest_to_dict_def
                A2AEnvelope_message_def A2AEnvelope_from_dict_def is_a2a_envelope_def
                parse_a2a_envelope_def Audience_of_def ret_def raise_def and_then_def
                try_except_def logger_def draw_uuid_def draw_time_def is_direct_topic_def
                detect_audience_def detect_recipient_def reply_keys_def a2a_branch_def
                legacy_try_def legacy_branch_def normalize_payload_def embedded_message_def
                quiet_environment_def example_node_def text_message_def request_payload_def
                )
  have t: "primary_text ?m = Some ''Ping''"
    by (simp add: py_or_def py_get_def py_get_default_def py_item_def dict_set_def
                dict_merge_def py_isspace_def py_strip_def JSONRPC_VERSION_def
                A2APart_to_dict_def A2APart_from_dict_def A2APart_text_def
                create_text_part_def A2AMessage_to_dict_def nonempty_or_none_def
                A2AMessage_from_dict_def primary_text_def sender_keys_def
                derive_sender_id_from_message_def MessageSendConfiguration_to_dict_def
                MessageSendConfiguration_from_dict_def MessageSendParams_to_dict_def
                MessageSendParams_from_dict_def SendMessageRequest_to_dict_def
                A2AEnvelope_message_def A2AEnvelope_from_dict_def is_a2a_envelope_def
                parse_a2a_envelope_def Audience_of_def ret_def raise_def and_then_def
                try_except_def logger_def draw_uuid_def draw_time_def is_direct_topic_def
                detect_audience_def detect_recipient_def reply_keys_def a2a_branch_def
                legacy_try_def legacy_branch_def normalize_payload_def embedded_message_def
                quiet_environment_def example_node_def text_message_def request_payload_def
                )
  from a2a_content [OF e o, of quiet_environment "''rooms/room/direct/agent''"] t
  show ?thesis
    by auto
qed

text \<open>A message whose primary text is the empty string: the content is the tree of the
  message, not that string.\<close>

theorem a2a_content_blank_text_counterexample:
  "embedded_message (request_payload blank_text_message ''req-1'') = Some blank_text_message \<and>
   primary_text blank_text_message = Some [] \<and>
   map_option content
     (projr (fst (normalize_payload quiet_environment ''rooms/room/direct/agent''
        (request_payload blank_text_message ''req-1'') example_node)))
     = Some (JDict (A2AMessage_to_dict blank_text_message)) \<and>
   map_option content
     (projr (fst (normalize_payload quiet_environment ''rooms/room/direct/agent''
        (request_payload blank_text_message ''req-1'') example_node)))
     \<noteq> Some (JStr (the (primary_text blank_text_message)))"
  by (simp add: py_or_def py_get_def py_get_default_def py_item_def dict_set_def
                dict_merge_def py_isspace_def py_strip_def JSONRPC_VERSION_def
                A2APart_to_dict_def A2APart_from_dict_def A2APart_text_def
                create_text_part_def A2AMessage_to_dict_def nonempty_or_none_def
                A2AMessage_from_dict_def primary_text_def sender_keys_def
                derive_sender_id_from_message_def MessageSendConfiguration_to_dict_def
                MessageSendConfiguration_from_dict_def MessageSendParams_to_dict_def
                MessageSendParams_from_dict_def SendMessageRequest_to_dict_def
                A2AEnvelope_message_def A2AEnvelope_from_dict_def is_a2a_envelope_def
                parse_a2a_envelope_def Audience_of_def ret_def raise_def and_then_def
                try_except_def logger_def draw_uuid_def draw_time_def is_direct_topic_def
                detect_audience_def detect_recipient_def reply_keys_def a2a_branch_def
                legacy_try_def legacy_branch_def normalize_payload_def embedded_message_def
                quiet_environment_def example_node_def text_message_def request_payload_def
                blank_text_message_def
                Let_def)


section \<open>Leaving the room\<close>

text \<open>
  C10. For a joined node, \<open>leave\<close> never lets an exception out. When the transport raises
  on one of the calls \<open>leave\<close> makes (an unsubscribe or the disconnect), \<open>leave\<close> returns
  False and the node is still joined; when none raises, it returns True and the node is
  no longer joined.
\<close>

theorem leave_failure_keeps_joined:
  assumes "joined s" and "leave E s = (r, s')"
  shows "if transport_raised E s s' then r = Inr False \<and> joined s'
         else r = Inr True \<and> \<not> joined s'"
proof -
  obtain r1 s1 where b: "leave_try E s = (r1, s1)"
    by (cases "leave_try E s")
  note c = leave_try_cases [OF b]
  show ?thesis
  proof (cases r1)
    case (Inl e)
    with assms b have "r = Inr False"
      and "s' = s1\<lparr>logged := logged s1 @ [LogError (''Error leaving room: '' @ exc_str e)]\<rparr>"
      by (auto simp: leave_def try_except_def and_then_def logger_def ret_def)
    with Inl c assms(1) show ?thesis
      by (auto simp: transport_raised_def calls_since_def split: if_splits)
  next
    case (Inr b')
    with assms b have "r = r1" and "s' = s1"
      by (auto simp: leave_def try_except_def)
    with Inr c show ?thesis
      by (auto split: if_splits)
  qed
qed

text \<open>The example node leaves while \<open>disconnect\<close> raises: both topics are unsubscribed,
  the result is False and the node is still joined. With a transport that does not
  raise, the result is True and the node is not joined.\<close>

theorem leave_failure_keeps_joined_witness:
  "joined example_node \<and>
   fst (leave failing_disconnect example_node) = Inr False \<and>
   joined (snd (leave failing_disconnect example_node)) \<and>
   wire (snd (leave failing_disconnect example_node))
     = [Unsubscribe ''rooms/room/group'', Unsubscribe ''rooms/room/direct/agent'', Disconnect] \<and>
   fst (leave quiet_environment example_node) = Inr True \<and>
   \<not> joined (snd (leave quiet_environment example_node))"
proof -
  let ?bad = "leave failing_disconnect example_node"
  let ?good = "leave quiet_environment example_node"
  have j: "joined example_node"
    by (simp add: group_topic_def direct_topic_to_def direct_topic_def ret_def and_then_def
                try_except_def logger_def client_call_def leave_try_def leave_def
                calls_since_def transport_raised_def quiet_environment_def
                failing_disconnect_def example_node_def
                )
  have w: "wire (snd ?bad)
             = [Unsubscribe ''rooms/room/group'', Unsubscribe ''rooms/room/direct/agent'', Disconnect]"
    by (simp add: group_topic_def direct_topic_to_def direct_topic_def ret_def and_then_def
                try_except_def logger_def client_call_def leave_try_def leave_def
                calls_since_def transport_raised_def quiet_environment_def
                failing_disconnect_def example_node_def
                )
  have w': "wire (snd ?good)
             = [Unsubscribe ''rooms/room/group'', Unsubscribe ''rooms/room/direct/agent'', Disconnect]"
    by (simp add: group_topic_def direct_topic_to_def direct_topic_def ret_def and_then_def
                try_except_def logger_def client_call_def leave_try_def leave_def
                calls_since_def transport_raised_def quiet_environment_def
                failing_disconnect_def example_node_def
                )
  have raised: "transport_raised failing_disconnect example_node (snd ?bad)"
    unfolding transport_raised_def calls_since_def w
    by (simp add: group_topic_def direct_topic_to_def direct_topic_def ret_def and_then_def
                try_except_def logger_def client_call_def leave_try_def leave_def
                calls_since_def transport_raised_def quiet_environment_def
                failing_disconnect_def example_node_def
                )
  have quiet: "\<not> transport_raised quiet_environment example_node (snd ?good)"
    unfolding transport_raised_def calls_since_def w'
    by (simp add: group_topic_def direct_topic_to_def direct_topic_def ret_def and_then_def
                try_except_def logger_def client_call_def leave_try_def leave_def
                calls_since_def transport_raised_def quiet_environment_def
                failing_disconnect_def example_node_def
                )
  have "fst ?bad = Inr False \<and> joined (snd ?bad)"
    using leave_failure_keeps_joined [OF j, of failing_disconnect "fst ?bad" "snd ?bad"] raised
    by simp
  moreover have "fst ?good = Inr True \<and> \<not> joined (snd ?good)"
    using leave_failure_keeps_joined [OF j, of quiet_environment "fst ?good" "snd ?good"] quiet
    by simp
  ultimately show ?thesis
    using j w by blast
qed


end
